theory Spec2Isabelle
  imports Main
begin

unbundle bit_operations_syntax

section \<open>Errors\<close>

text \<open>
  Every error value the binder can return.  \<open>GoError\<close> is an error made by
  \<^verbatim>\<open>errors.New\<close> or \<^verbatim>\<open>fmt.Errorf\<close> with the given message, \<open>NumError\<close> is
  \<^verbatim>\<open>*strconv.NumError{Func, Num, Err}\<close>, \<open>LibError\<close> is an error produced inside a
  standard-library collaborator (mime, json, time, io, base64, image), and \<open>Panic\<close>
  is a run-time panic of the reflect package.
\<close>

datatype numerr = ErrSyntax | ErrRange | ErrBase | ErrBitSize

datatype error =
    GoError string
  | NumError string string numerr
  | InvalidUnmarshalError
  | LibError string
  | Panic string

section \<open>Types, kinds and values of destination fields\<close>

datatype Kind =
    KBool | KInt | KInt8 | KInt16 | KInt32 | KInt64
  | KUint | KUint8 | KUint16 | KUint32 | KUint64 | KUintptr
  | KFloat32 | KFloat64 | KComplex64 | KComplex128
  | KArray | KChan | KFunc | KInterface | KMap | KPtr | KSlice | KString | KStruct
  | KUnsafePointer

text \<open>
  The field types the binder distinguishes: the predeclared scalar types, pointers,
  slices, \<^verbatim>\<open>time.Time\<close>, any other struct type (by name), the interface
  \<^verbatim>\<open>image.Image\<close>, any other interface type (by name), and the remaining
  composite types, of which only the kind matters.
\<close>

datatype gotype =
    TBool | TInt | TInt8 | TInt16 | TInt32 | TInt64
  | TUint | TUint8 | TUint16 | TUint32 | TUint64 | TUintptr
  | TFloat32 | TFloat64 | TComplex64 | TComplex128 | TString
  | TPtr gotype | TSlice gotype
  | TTime | TStruct string
  | TImage | TInterface string
  | TArray | TChan | TFunc | TMap | TUnsafePointer

fun kind_of :: "gotype \<Rightarrow> Kind" where
  "kind_of TBool = KBool"
| "kind_of TInt = KInt"
| "kind_of TInt8 = KInt8"
| "kind_of TInt16 = KInt16"
| "kind_of TInt32 = KInt32"
| "kind_of TInt64 = KInt64"
| "kind_of TUint = KUint"
| "kind_of TUint8 = KUint8"
| "kind_of TUint16 = KUint16"
| "kind_of TUint32 = KUint32"
| "kind_of TUint64 = KUint64"
| "kind_of TUintptr = KUintptr"
| "kind_of TFloat32 = KFloat32"
| "kind_of TFloat64 = KFloat64"
| "kind_of TComplex64 = KComplex64"
| "kind_of TComplex128 = KComplex128"
| "kind_of TString = KString"
| "kind_of (TPtr t) = KPtr"
| "kind_of (TSlice t) = KSlice"
| "kind_of TTime = KStruct"
| "kind_of (TStruct n) = KStruct"
| "kind_of TImage = KInterface"
| "kind_of (TInterface n) = KInterface"
| "kind_of TArray = KArray"
| "kind_of TChan = KChan"
| "kind_of TFunc = KFunc"
| "kind_of TMap = KMap"
| "kind_of TUnsafePointer = KUnsafePointer"

text \<open>\<^verbatim>\<open>Type.Elem()\<close>: the element type of a pointer or slice type.  The binder calls it
  on pointer types only; on the other types (where reflect panics) the model returns
  the type itself.\<close>

fun Elem :: "gotype \<Rightarrow> gotype" where
  "Elem (TPtr t) = t"
| "Elem (TSlice t) = t"
| "Elem t = t"

text \<open>
  A Go string and a byte slice are both sequences of bytes, as an Isabelle \<open>string\<close>
  is.  A float is the bit pattern of its IEEE-754 binary64 value (what
  \<^verbatim>\<open>math.Float64bits\<close> returns; a \<^verbatim>\<open>float32\<close> field holds a value that \<^verbatim>\<open>float32\<close>
  represents).  Times and images are produced by library collaborators only; the
  model carries them as opaque codes (\<open>0\<close> is the zero value of the type).
\<close>

type_synonym bytes = string
type_synonym gofloat = nat
type_synonym gotime = nat
type_synonym goimage = nat

datatype val =
    VBool bool
  | VInt int
  | VUint nat
  | VFloat gofloat
  | VString string
  | VBytes bytes
  | VTime gotime
  | VImage goimage
  | VPtr val
  | VNil
  | VOpaque

text \<open>The zero value of a type, and what \<^verbatim>\<open>reflect.New(t)\<close> points at.\<close>

fun zero :: "gotype \<Rightarrow> val" where
  "zero TBool = VBool False"
| "zero TInt = VInt 0"
| "zero TInt8 = VInt 0"
| "zero TInt16 = VInt 0"
| "zero TInt32 = VInt 0"
| "zero TInt64 = VInt 0"
| "zero TUint = VUint 0"
| "zero TUint8 = VUint 0"
| "zero TUint16 = VUint 0"
| "zero TUint32 = VUint 0"
| "zero TUint64 = VUint 0"
| "zero TUintptr = VUint 0"
| "zero TFloat32 = VFloat 0"
| "zero TFloat64 = VFloat 0"
| "zero TString = VString []"
| "zero (TPtr t) = VNil"
| "zero (TSlice t) = VNil"
| "zero TTime = VTime 0"
| "zero TImage = VNil"
| "zero (TInterface n) = VNil"
| "zero TChan = VNil"
| "zero TFunc = VNil"
| "zero TMap = VNil"
| "zero TUnsafePointer = VNil"
| "zero t = VOpaque"

section \<open>Struct fields, tags and the destination record\<close>

text \<open>
  A declared field as \<^verbatim>\<open>reflect.StructField\<close> shows it: its name, its type, its
  struct tag as the list of \<^verbatim>\<open>key:"value"\<close> pairs that \<^verbatim>\<open>StructTag.Lookup\<close> reads
  (the first pair of a key wins), and whether the field is exported (reflect refuses
  to set a value obtained from an unexported field).
\<close>

record StructField =
  Name :: string
  Type :: gotype
  Tag :: "(string \<times> string) list"
  exported :: bool

definition Tag_Lookup :: "(string \<times> string) list \<Rightarrow> string \<Rightarrow> string option" where
  "Tag_Lookup tag key = map_of tag key"

definition Tag_Get :: "(string \<times> string) list \<Rightarrow> string \<Rightarrow> string" where
  "Tag_Get tag key = (case Tag_Lookup tag key of None \<Rightarrow> [] | Some v \<Rightarrow> v)"

text \<open>The destination struct: the value of each field, by field name
  (\<^verbatim>\<open>val.FieldByName\<close>).\<close>

type_synonym structval = "string \<Rightarrow> val"

text \<open>
  A \<^verbatim>\<open>reflect.Value\<close> that designates a place of the destination struct: the field
  \<open>vname\<close> itself, or (after \<^verbatim>\<open>reflect.Indirect\<close>) what the pointer in that field
  points at; \<open>vtype\<close> is \<^verbatim>\<open>Value.Type()\<close> and \<open>vsettable\<close> is \<^verbatim>\<open>Value.CanSet()\<close>.
\<close>

record Value =
  vname :: string
  vtype :: gotype
  vindirect :: bool
  vsettable :: bool

definition FieldByName :: "StructField \<Rightarrow> Value" where
  "FieldByName f =
     \<lparr>vname = Name f, vtype = Type f, vindirect = False, vsettable = exported f\<rparr>"

definition Indirect :: "Value \<Rightarrow> Value" where
  "Indirect v = v\<lparr>vtype := Elem (vtype v), vindirect := True\<rparr>"

text \<open>\<^verbatim>\<open>Value.Set\<close>, \<^verbatim>\<open>SetBool\<close>, \<^verbatim>\<open>SetInt\<close>, ...: store \<open>x\<close> in the designated place;
  a panic when the value is not settable.\<close>

definition Value_Set :: "Value \<Rightarrow> val \<Rightarrow> structval \<Rightarrow> error option \<times> structval" where
  "Value_Set valf x sv =
     (if vsettable valf
      then (None, sv(vname valf := (if vindirect valf then VPtr x else x)))
      else (Some (Panic ''reflect: value obtained using unexported field''), sv))"

section \<open>The tag parser (tag.go)\<close>

record flags =
  base64 :: bool
  required :: bool

text \<open>\<^verbatim>\<open>strings.Split(s, ",")\<close>: the pieces between the separators; one piece (the
  empty one) for the empty string.\<close>

fun Split :: "string \<Rightarrow> char \<Rightarrow> string list" where
  "Split [] sep = [[]]"
| "Split (c # cs) sep =
     (if c = sep then [] # Split cs sep
      else (case Split cs sep of
              [] \<Rightarrow> [[c]]
            | w # ws \<Rightarrow> (c # w) # ws))"

fun parseOptions :: "string list \<Rightarrow> flags \<Rightarrow> flags" where
  "parseOptions [] f = f"
| "parseOptions (option # rest) f =
     parseOptions rest
       (if option = ''base64'' then f\<lparr>base64 := True\<rparr>
        else if option = ''required'' then f\<lparr>required := True\<rparr>
        else f)"

definition parseTag :: "string \<Rightarrow> string \<times> flags" where
  "parseTag tag =
     (let split = Split tag (CHR '','') in
      if length split > 0
      then (hd split, parseOptions (tl split) \<lparr>base64 = False, required = False\<rparr>)
      else ([], \<lparr>base64 = False, required = False\<rparr>))"

section \<open>The standard library's integer and boolean parsers (package strconv)\<close>

text \<open>
  The scalar decoders call \<^verbatim>\<open>strconv.ParseBool\<close>, \<^verbatim>\<open>strconv.ParseInt\<close> and
  \<^verbatim>\<open>strconv.ParseUint\<close> of the Go standard library (go 1.13, the version the module
  declares).  They are transcribed here from \<^verbatim>\<open>strconv/atob.go\<close> and
  \<^verbatim>\<open>strconv/atoi.go\<close>; an unsigned 64-bit accumulator is a \<open>nat\<close> with the
  wrap-around \<open>mod 2 ^ 64\<close> written out.  \<open>IntSize\<close> is the width of \<^verbatim>\<open>int\<close> on a
  64-bit platform.
\<close>

definition IntSize :: int where
  "IntSize = 64"

definition maxUint64 :: nat where
  "maxUint64 = 2 ^ 64 - 1"

definition fnParseBool :: string where "fnParseBool = ''ParseBool''"
definition fnParseInt :: string where "fnParseInt = ''ParseInt''"
definition fnParseUint :: string where "fnParseUint = ''ParseUint''"

definition syntaxError :: "string \<Rightarrow> string \<Rightarrow> error" where
  "syntaxError fn str = NumError fn str ErrSyntax"

definition rangeError :: "string \<Rightarrow> string \<Rightarrow> error" where
  "rangeError fn str = NumError fn str ErrRange"

definition baseError :: "string \<Rightarrow> string \<Rightarrow> int \<Rightarrow> error" where
  "baseError fn str base = NumError fn str ErrBase"

definition bitSizeError :: "string \<Rightarrow> string \<Rightarrow> int \<Rightarrow> error" where
  "bitSizeError fn str bitSize = NumError fn str ErrBitSize"

definition ParseBool :: "string \<Rightarrow> error + bool" where
  "ParseBool str =
     (if str \<in> set [''1'', ''t'', ''T'', ''TRUE'', ''true'', ''True''] then Inr True
      else if str \<in> set [''0'', ''f'', ''F'', ''FALSE'', ''false'', ''False''] then Inr False
      else Inl (syntaxError fnParseBool str))"

text \<open>\<^verbatim>\<open>lower(c) = c | ('x' - 'X')\<close>: the lower-case letter of an ASCII letter.\<close>

definition lower :: "char \<Rightarrow> char" where
  "lower c = char_of ((of_char c :: nat) OR 32)"

definition byte_le :: "char \<Rightarrow> char \<Rightarrow> bool" where
  "byte_le a b = ((of_char a :: nat) \<le> of_char b)"

text \<open>The digit switch of the loop of \<^verbatim>\<open>ParseUint\<close>: the value of a digit or letter,
  \<open>None\<close> for any other byte.\<close>

definition digitVal :: "char \<Rightarrow> nat option" where
  "digitVal c =
     (if byte_le (CHR ''0'') c \<and> byte_le c (CHR ''9'')
      then Some (of_char c - of_char (CHR ''0''))
      else if byte_le (CHR ''a'') (lower c) \<and> byte_le (lower c) (CHR ''z'')
      then Some (of_char (lower c) - of_char (CHR ''a'') + 10)
      else None)"

text \<open>
  The digit loop of \<^verbatim>\<open>ParseUint\<close>.  It returns the value and the error that
  \<^verbatim>\<open>ParseUint\<close> returns from inside the loop (\<open>maxVal\<close> with a range error), or the
  accumulated value, together with the flag \<^verbatim>\<open>underscores\<close>.
\<close>

fun ParseUint_loop ::
  "nat \<Rightarrow> bool \<Rightarrow> nat \<Rightarrow> nat \<Rightarrow> string \<Rightarrow> nat \<Rightarrow> bool \<Rightarrow> (nat \<times> numerr option) \<times> bool" where
  "ParseUint_loop base base0 cutoff maxVal [] n underscores = ((n, None), underscores)"
| "ParseUint_loop base base0 cutoff maxVal (c # cs) n underscores =
     (if c = CHR ''_'' \<and> base0 then ParseUint_loop base base0 cutoff maxVal cs n True
      else
        (case digitVal c of
           None \<Rightarrow> ((0, Some ErrSyntax), underscores)
         | Some d \<Rightarrow>
             if d \<ge> base then ((0, Some ErrSyntax), underscores)
             else if n \<ge> cutoff then ((maxVal, Some ErrRange), underscores)
             else
               (let n' = (n * base) mod 2 ^ 64;
                    n1 = (n' + d) mod 2 ^ 64
                in if n1 < n' \<or> n1 > maxVal then ((maxVal, Some ErrRange), underscores)
                   else ParseUint_loop base base0 cutoff maxVal cs n1 underscores)))"

fun underscoreOK_loop :: "bool \<Rightarrow> string \<Rightarrow> char \<Rightarrow> bool" where
  "underscoreOK_loop hex [] saw = (saw \<noteq> CHR ''_'')"
| "underscoreOK_loop hex (c # cs) saw =
     (if (byte_le (CHR ''0'') c \<and> byte_le c (CHR ''9'')) \<or>
         (hex \<and> byte_le (CHR ''a'') (lower c) \<and> byte_le (lower c) (CHR ''f''))
      then underscoreOK_loop hex cs (CHR ''0'')
      else if c = CHR ''_''
      then (if saw \<noteq> CHR ''0'' then False else underscoreOK_loop hex cs (CHR ''_''))
      else if saw = CHR ''_'' then False
      else underscoreOK_loop hex cs (CHR ''!''))"

definition underscoreOK :: "string \<Rightarrow> bool" where
  "underscoreOK s0 =
     (let s = (if length s0 \<ge> 1 \<and> (s0 ! 0 = CHR ''-'' \<or> s0 ! 0 = CHR ''+'')
               then drop 1 s0 else s0)
      in if length s \<ge> 2 \<and> s ! 0 = CHR ''0'' \<and>
            (lower (s ! 1) = CHR ''b'' \<or> lower (s ! 1) = CHR ''o'' \<or> lower (s ! 1) = CHR ''x'')
         then underscoreOK_loop (lower (s ! 1) = CHR ''x'') (drop 2 s) (CHR ''0'')
         else underscoreOK_loop False s (CHR ''^''))"

text \<open>The base switch of \<^verbatim>\<open>ParseUint\<close>: the base to use and the digits left, or
  \<open>None\<close> for an invalid base.\<close>

definition ParseUint_base :: "string \<Rightarrow> int \<Rightarrow> (int \<times> string) option" where
  "ParseUint_base s base =
     (if 2 \<le> base \<and> base \<le> 36 then Some (base, s)
      else if base = 0 then
        Some (if s ! 0 = CHR ''0'' then
                (if length s \<ge> 3 \<and> lower (s ! 1) = CHR ''b'' then (2, drop 2 s)
                 else if length s \<ge> 3 \<and> lower (s ! 1) = CHR ''o'' then (8, drop 2 s)
                 else if length s \<ge> 3 \<and> lower (s ! 1) = CHR ''x'' then (16, drop 2 s)
                 else (8, drop 1 s))
              else (10, s))
      else None)"

definition ParseUint :: "string \<Rightarrow> int \<Rightarrow> int \<Rightarrow> nat \<times> error option" where
  "ParseUint s0 base bitSize =
     (if length s0 = 0 then (0, Some (syntaxError fnParseUint s0))
      else
        (case ParseUint_base s0 base of
           None \<Rightarrow> (0, Some (baseError fnParseUint s0 base))
         | Some (base', s) \<Rightarrow>
             if bitSize \<noteq> 0 \<and> (bitSize < 0 \<or> bitSize > 64)
             then (0, Some (bitSizeError fnParseUint s0 bitSize))
             else
               (let bitSize' = (if bitSize = 0 then IntSize else bitSize);
                    cutoff = maxUint64 div nat base' + 1;
                    maxVal = (2 ^ nat bitSize' mod 2 ^ 64 + maxUint64) mod 2 ^ 64
                in case ParseUint_loop (nat base') (base = 0) cutoff maxVal s 0 False of
                     ((n, Some e), underscores) \<Rightarrow> (n, Some (NumError fnParseUint s0 e))
                   | ((n, None), underscores) \<Rightarrow>
                       if underscores \<and> \<not> underscoreOK s0
                       then (0, Some (syntaxError fnParseUint s0))
                       else (n, None))))"

text \<open>The conversion \<^verbatim>\<open>int64(un)\<close> of an unsigned 64-bit value, and the negation
  of a 64-bit signed value; both wrap.\<close>

definition int64_of_uint64 :: "nat \<Rightarrow> int" where
  "int64_of_uint64 un = (if un < 2 ^ 63 then int un else int un - 2 ^ 64)"

definition neg_int64 :: "int \<Rightarrow> int" where
  "neg_int64 n = (if n = - (2 ^ 63) then n else - n)"

definition numerr_of :: "error \<Rightarrow> numerr" where
  "numerr_of e = (case e of NumError fn num ne \<Rightarrow> ne | _ \<Rightarrow> ErrSyntax)"

definition ParseInt :: "string \<Rightarrow> int \<Rightarrow> int \<Rightarrow> int \<times> error option" where
  "ParseInt s0 base bitSize =
     (if s0 = [] then (0, Some (syntaxError fnParseInt s0))
      else
        (let neg = (s0 ! 0 = CHR ''-'');
             s = (if s0 ! 0 = CHR ''+'' \<or> s0 ! 0 = CHR ''-'' then drop 1 s0 else s0)
         in case ParseUint s base bitSize of (un, err) \<Rightarrow>
              if err \<noteq> None \<and> numerr_of (the err) \<noteq> ErrRange
              then (0, Some (NumError fnParseInt s0 (numerr_of (the err))))
              else
                (let bitSize' = (if bitSize = 0 then IntSize else bitSize);
                     cutoff = (2 ^ nat (bitSize' - 1)) mod 2 ^ 64
                 in if \<not> neg \<and> un \<ge> cutoff
                    then (int64_of_uint64 (cutoff - 1), Some (rangeError fnParseInt s0))
                    else if neg \<and> un > cutoff
                    then (neg_int64 (int64_of_uint64 cutoff), Some (rangeError fnParseInt s0))
                    else (if neg then neg_int64 (int64_of_uint64 un)
                          else int64_of_uint64 un, None))))"

section \<open>The numeric base annotation (tag.go)\<close>

definition base :: "(string \<times> string) list \<Rightarrow> int \<times> error option" where
  "base tag =
     (case Tag_Lookup tag ''base'' of
        Some baseStr \<Rightarrow>
          (case ParseInt baseStr 10 32 of
             (b, Some err) \<Rightarrow> (b, Some (GoError ''invalid int base''))
           | (b, None) \<Rightarrow> (b, None))
      | None \<Rightarrow> (10, None))"

section \<open>Library collaborators and the request\<close>

text \<open>
  The other standard-library functions the binder calls are collaborators outside the
  repository; the model takes them as parameters:
  \<^item> \<open>ParseMediaType\<close>: the media type that \<^verbatim>\<open>mime.ParseMediaType\<close> returns for a
    non-empty header value, or its error;
  \<^item> \<open>ParseFloat\<close>: \<^verbatim>\<open>strconv.ParseFloat(value, bitSize)\<close> on a text that is not one of
    the special values;
  \<^item> \<open>FormatFloat\<close>: the canonical text of a finite float,
    \<^verbatim>\<open>strconv.FormatFloat(f, 'g', -1, bitSize)\<close> (the binder does not call it; the
    round-trip property speaks of it);
  \<^item> \<open>time_Parse\<close>, \<open>time_LoadLocation\<close>, \<open>time_ParseInLocation\<close>: package time;
  \<^item> \<open>base64_ReadAll\<close>: \<^verbatim>\<open>ioutil.ReadAll\<close> of
    \<^verbatim>\<open>base64.NewDecoder(base64.StdEncoding, data)\<close>;
  \<^item> \<open>image_Decode\<close>: \<^verbatim>\<open>image.Decode\<close> of the stream, read through the base64
    decoder when the flag is set.
  Two facts about the types of the program come with them, since reflect reads them
  from the type declarations:
  \<^item> \<open>Implements\<close>: whether the method set of a type has the methods of
    \<^verbatim>\<open>image.Image\<close> (an interface that embeds it, such as \<^verbatim>\<open>draw.Image\<close>, or a concrete
    type such as \<^verbatim>\<open>image.Rectangle\<close>);
  \<^item> \<open>AssignableTo\<close>: whether the dynamic type of a decoded image is assignable to a
    type.
\<close>

text \<open>An opened file part: the bytes it holds and the error, if any, that reading
  it to the end meets.\<close>

record stream =
  content :: bytes
  readError :: "error option"

text \<open>A \<^verbatim>\<open>*multipart.FileHeader\<close>: what \<^verbatim>\<open>hdr.Open()\<close> returns.\<close>

datatype FileHeader = FileHeader (Open: "error + stream")

type_synonym location = nat

record stdlib =
  ParseMediaType :: "string \<Rightarrow> error + string"
  ParseFloat :: "string \<Rightarrow> int \<Rightarrow> error + gofloat"
  FormatFloat :: "gofloat \<Rightarrow> int \<Rightarrow> string"
  time_Parse :: "string \<Rightarrow> string \<Rightarrow> error + gotime"
  time_LoadLocation :: "string \<Rightarrow> error + location"
  time_ParseInLocation :: "string \<Rightarrow> string \<Rightarrow> location \<Rightarrow> error + gotime"
  base64_ReadAll :: "stream \<Rightarrow> error + bytes"
  image_Decode :: "bool \<Rightarrow> stream \<Rightarrow> error + goimage"
  Implements :: "gotype \<Rightarrow> bool"
  AssignableTo :: "goimage \<Rightarrow> gotype \<Rightarrow> bool"

text \<open>\<^verbatim>\<open>Type.Implements(image.Image)\<close>: the interface \<^verbatim>\<open>image.Image\<close> itself, and every
  type whose method set has its methods.\<close>

definition Implements_Image :: "stdlib \<Rightarrow> gotype \<Rightarrow> bool" where
  "Implements_Image L t = (t = TImage \<or> Implements L t)"

text \<open>
  \<^verbatim>\<open>valf.Set(reflect.ValueOf(img))\<close> for a decoded image: reflect panics when the value
  is not settable, and when the dynamic type of the image is not assignable to the
  type of the place (every image is assignable to \<^verbatim>\<open>image.Image\<close>).
\<close>

definition Value_SetImage ::
  "stdlib \<Rightarrow> Value \<Rightarrow> goimage \<Rightarrow> structval \<Rightarrow> error option \<times> structval" where
  "Value_SetImage L valf img sv =
     (if vsettable valf \<and> vtype valf \<noteq> TImage \<and> \<not> AssignableTo L img (vtype valf)
      then (Some (Panic ''reflect.Set: value is not assignable to the type of the field''), sv)
      else Value_Set valf (VImage img) sv)"

text \<open>
  The request as the binder reads it: the header map, the maps \<^verbatim>\<open>r.Form\<close> and
  \<^verbatim>\<open>r.MultipartForm.File\<close> as \<^verbatim>\<open>r.ParseMultipartForm\<close> fills them (\<open>None\<close> for a nil
  \<^verbatim>\<open>r.MultipartForm\<close>), and the body as the JSON decoder sees it: \<open>Inl e\<close> when no JSON
  value can be read from it, otherwise what unmarshalling the value does to a struct
  behind a pointer (an error, if any, and the struct as the decoder leaves it) and
  the error, if any, of unmarshalling it into a pointer to something else.
\<close>

record Request =
  Header :: "string \<Rightarrow> string list"
  Form :: "string \<Rightarrow> string list"
  MultipartForm :: "(string \<Rightarrow> FileHeader list) option"
  Body :: "error + (structval \<Rightarrow> error option \<times> structval) \<times> error option"

text \<open>\<^verbatim>\<open>Header.Get\<close>: the first value of the key, the empty string when there is none.\<close>

definition Header_Get :: "(string \<Rightarrow> string list) \<Rightarrow> string \<Rightarrow> string" where
  "Header_Get h key = (case h key of [] \<Rightarrow> [] | v # vs \<Rightarrow> v)"

text \<open>The file parts of the request under a key, \<^verbatim>\<open>r.MultipartForm.File[tag]\<close>: none when
  \<^verbatim>\<open>r.MultipartForm\<close> is nil.\<close>

definition fileParts :: "Request \<Rightarrow> string \<Rightarrow> FileHeader list" where
  "fileParts r tag = (case MultipartForm r of None \<Rightarrow> [] | Some File \<Rightarrow> File tag)"

text \<open>
  \<^verbatim>\<open>mime.ParseMediaType\<close>.  On the empty string the type token is empty and
  \<^verbatim>\<open>checkMediaTypeDisposition\<close> returns \<^verbatim>\<open>errors.New("mime: no media type")\<close>; every
  other header value is left to the collaborator.
\<close>

definition mime_ParseMediaType :: "stdlib \<Rightarrow> string \<Rightarrow> error + string" where
  "mime_ParseMediaType L v =
     (if v = [] then Inl (GoError ''mime: no media type'') else ParseMediaType L v)"

section \<open>The standard library's float parser (package strconv)\<close>

text \<open>
  The fields of a binary64 bit pattern: a NaN has all exponent bits set and a
  mantissa that is not zero; the infinities have all exponent bits set and the
  mantissa zero.  \<open>quietNaN\<close> is \<^verbatim>\<open>math.NaN()\<close>.
\<close>

definition isNaN :: "gofloat \<Rightarrow> bool" where
  "isNaN x = ((x div 2 ^ 52) mod 2 ^ 11 = 2047 \<and> x mod 2 ^ 52 \<noteq> 0)"

definition posInf :: gofloat where
  "posInf = 2047 * 2 ^ 52"

definition negInf :: gofloat where
  "negInf = 2 ^ 63 + 2047 * 2 ^ 52"

definition quietNaN :: gofloat where
  "quietNaN = 2047 * 2 ^ 52 + 2 ^ 51 + 1"

text \<open>Go's \<^verbatim>\<open>==\<close> on floats: a NaN is equal to nothing, not even to itself; the two
  zeros are equal; otherwise the bit patterns decide.\<close>

definition float_eq :: "gofloat \<Rightarrow> gofloat \<Rightarrow> bool" where
  "float_eq x y =
     (\<not> isNaN x \<and> \<not> isNaN y \<and> (x = y \<or> (x mod 2 ^ 63 = 0 \<and> y mod 2 ^ 63 = 0)))"

text \<open>Go's \<^verbatim>\<open>==\<close> on the values of the scalar kinds.\<close>

fun go_equal :: "val \<Rightarrow> val \<Rightarrow> bool" where
  "go_equal (VFloat x) (VFloat y) = float_eq x y"
| "go_equal x y = (x = y)"

text \<open>
  \<^verbatim>\<open>strconv.ParseFloat\<close> (\<^verbatim>\<open>strconv/atof.go\<close>, go 1.13) first looks for the special
  values: as its documentation says, it recognizes the strings \<^verbatim>\<open>NaN\<close> and the
  (possibly signed) strings \<^verbatim>\<open>Inf\<close> and \<^verbatim>\<open>Infinity\<close>, ignoring case.  With
  \<^verbatim>\<open>bitSize\<close> 32 the value goes through \<^verbatim>\<open>float32\<close>, which keeps an infinity and
  leaves a NaN a NaN (its payload cut to the \<^verbatim>\<open>float32\<close> mantissa).  Every other
  text is left to the collaborator.
\<close>

definition lowerASCII :: "char \<Rightarrow> char" where
  "lowerASCII c =
     (if byte_le (CHR ''A'') c \<and> byte_le c (CHR ''Z'')
      then char_of ((of_char c :: nat) + 32) else c)"

definition equalIgnoreCase :: "string \<Rightarrow> string \<Rightarrow> bool" where
  "equalIgnoreCase s1 s2 =
     (if length s1 \<noteq> length s2 then False else map lowerASCII s1 = map lowerASCII s2)"

definition special :: "string \<Rightarrow> gofloat option" where
  "special s =
     (if length s = 0 then None
      else if s ! 0 = CHR ''+'' then
        (if equalIgnoreCase s ''+inf'' \<or> equalIgnoreCase s ''+infinity'' then Some posInf
         else None)
      else if s ! 0 = CHR ''-'' then
        (if equalIgnoreCase s ''-inf'' \<or> equalIgnoreCase s ''-infinity'' then Some negInf
         else None)
      else if s ! 0 = CHR ''n'' \<or> s ! 0 = CHR ''N'' then
        (if equalIgnoreCase s ''nan'' then Some quietNaN else None)
      else if s ! 0 = CHR ''i'' \<or> s ! 0 = CHR ''I'' then
        (if equalIgnoreCase s ''inf'' \<or> equalIgnoreCase s ''infinity'' then Some posInf
         else None)
      else None)"

definition float32_of_special :: "gofloat \<Rightarrow> gofloat" where
  "float32_of_special x = (if isNaN x then 2047 * 2 ^ 52 + 2 ^ 51 else x)"

definition strconv_ParseFloat :: "stdlib \<Rightarrow> string \<Rightarrow> int \<Rightarrow> error + gofloat" where
  "strconv_ParseFloat L s bitSize =
     (case special s of
        Some val \<Rightarrow> Inr (if bitSize = 32 then float32_of_special val else val)
      | None \<Rightarrow> ParseFloat L s bitSize)"

text \<open>
  \<^verbatim>\<open>strconv.FormatFloat\<close> (\<^verbatim>\<open>strconv/ftoa.go\<close>): when all exponent bits are set the
  text is \<^verbatim>\<open>NaN\<close>, \<^verbatim>\<open>-Inf\<close> or \<^verbatim>\<open>+Inf\<close>; the digits of a finite float are left to the
  collaborator.
\<close>

definition strconv_FormatFloat :: "stdlib \<Rightarrow> gofloat \<Rightarrow> int \<Rightarrow> string" where
  "strconv_FormatFloat L x bitSize =
     (if isNaN x then ''NaN''
      else if x = negInf then ''-Inf''
      else if x = posInf then ''+Inf''
      else FormatFloat L x bitSize)"

section \<open>The scalar decoders (unmarshal.go)\<close>

definition decodeBool :: "Value \<Rightarrow> string \<Rightarrow> structval \<Rightarrow> error option \<times> structval" where
  "decodeBool valf value sv =
     (case ParseBool value of
        Inl err \<Rightarrow> (Some err, sv)
      | Inr boolVal \<Rightarrow> Value_Set valf (VBool boolVal) sv)"

definition decodeFloat ::
  "stdlib \<Rightarrow> Value \<Rightarrow> int \<Rightarrow> string \<Rightarrow> structval \<Rightarrow> error option \<times> structval" where
  "decodeFloat L valf bitSize value sv =
     (case strconv_ParseFloat L value bitSize of
        Inl err \<Rightarrow> (Some err, sv)
      | Inr floatVal \<Rightarrow> Value_Set valf (VFloat floatVal) sv)"

definition decodeInt ::
  "Value \<Rightarrow> (string \<times> string) list \<Rightarrow> int \<Rightarrow> string \<Rightarrow> structval
     \<Rightarrow> error option \<times> structval" where
  "decodeInt valf tag bitSize value sv =
     (case base tag of
        (b, Some err) \<Rightarrow> (Some err, sv)
      | (b, None) \<Rightarrow>
          (case ParseInt value b bitSize of
             (intVal, Some err) \<Rightarrow> (Some err, sv)
           | (intVal, None) \<Rightarrow> Value_Set valf (VInt intVal) sv))"

definition decodeUint ::
  "Value \<Rightarrow> (string \<times> string) list \<Rightarrow> int \<Rightarrow> string \<Rightarrow> structval
     \<Rightarrow> error option \<times> structval" where
  "decodeUint valf tag bitSize value sv =
     (case base tag of
        (b, Some err) \<Rightarrow> (Some err, sv)
      | (b, None) \<Rightarrow>
          (case ParseUint value b bitSize of
             (intVal, Some err) \<Rightarrow> (Some err, sv)
           | (intVal, None) \<Rightarrow> Value_Set valf (VUint intVal) sv))"

definition RFC3339 :: string where
  "RFC3339 = ''2006-01-02T15:04:05Z07:00''"

definition decodeStruct ::
  "stdlib \<Rightarrow> Value \<Rightarrow> StructField \<Rightarrow> string \<Rightarrow> structval \<Rightarrow> error option \<times> structval" where
  "decodeStruct L valf f formValue sv =
     (if vtype valf = TTime then
        (let format0 = Tag_Get (Tag f) ''format'';
             format = (if format0 = [] then RFC3339 else format0);
             tz = Tag_Get (Tag f) ''tz''
         in case (if tz = [] then time_Parse L format formValue
                  else (case time_LoadLocation L tz of
                          Inl err \<Rightarrow> Inl err
                        | Inr loc \<Rightarrow> time_ParseInLocation L format formValue loc)) of
              Inl err \<Rightarrow> (Some err, sv)
            | Inr timeVal \<Rightarrow> Value_Set valf (VTime timeVal) sv)
      else (Some (GoError ''goform: invalid destination type''), sv))"

definition decodeFormValue ::
  "stdlib \<Rightarrow> Value \<Rightarrow> Kind \<Rightarrow> StructField \<Rightarrow> string \<Rightarrow> structval
     \<Rightarrow> error option \<times> structval" where
  "decodeFormValue L valf kind f formValue sv =
     (case kind of
        KSlice \<Rightarrow>
          (if vtype valf = TSlice TUint8 then Value_Set valf (VBytes formValue) sv
           else (None, sv))
      | KString \<Rightarrow> Value_Set valf (VString formValue) sv
      | KBool \<Rightarrow> decodeBool valf formValue sv
      | KInt \<Rightarrow> decodeInt valf (Tag f) 0 formValue sv
      | KInt8 \<Rightarrow> decodeInt valf (Tag f) 8 formValue sv
      | KInt16 \<Rightarrow> decodeInt valf (Tag f) 16 formValue sv
      | KInt32 \<Rightarrow> decodeInt valf (Tag f) 32 formValue sv
      | KInt64 \<Rightarrow> decodeInt valf (Tag f) 64 formValue sv
      | KUint \<Rightarrow> decodeUint valf (Tag f) 0 formValue sv
      | KUint8 \<Rightarrow> decodeUint valf (Tag f) 8 formValue sv
      | KUint16 \<Rightarrow> decodeUint valf (Tag f) 16 formValue sv
      | KUint32 \<Rightarrow> decodeUint valf (Tag f) 32 formValue sv
      | KUint64 \<Rightarrow> decodeUint valf (Tag f) 64 formValue sv
      | KFloat32 \<Rightarrow> decodeFloat L valf 32 formValue sv
      | KFloat64 \<Rightarrow> decodeFloat L valf 64 formValue sv
      | KStruct \<Rightarrow> decodeStruct L valf f formValue sv
      | _ \<Rightarrow> (Some (GoError ''goform: invalid destination type''), sv))"

section \<open>The multipart decoder (unmarshal.go)\<close>

text \<open>\<^verbatim>\<open>ioutil.ReadAll(rdr)\<close>, where \<^verbatim>\<open>rdr\<close> is the opened part, wrapped in the
  base64 decoder when the flag is set.\<close>

definition ReadAll :: "stdlib \<Rightarrow> bool \<Rightarrow> stream \<Rightarrow> error + bytes" where
  "ReadAll L b64 data =
     (if b64 then base64_ReadAll L data
      else (case readError data of
              Some err \<Rightarrow> Inl err
            | None \<Rightarrow> Inr (content data)))"

definition decodeMultipartFile ::
  "stdlib \<Rightarrow> Value \<Rightarrow> Kind \<Rightarrow> flags \<Rightarrow> FileHeader \<Rightarrow> structval
     \<Rightarrow> error option \<times> structval" where
  "decodeMultipartFile L valf kind tagOptions hdr sv =
     (case Open hdr of
        Inl err \<Rightarrow> (Some err, sv)
      | Inr data \<Rightarrow>
          if vtype valf = TSlice TUint8 then
            (case ReadAll L (base64 tagOptions) data of
               Inl err \<Rightarrow> (Some err, sv)
             | Inr readData \<Rightarrow> Value_Set valf (VBytes readData) sv)
          else if Implements_Image L (vtype valf) then
            (case image_Decode L (base64 tagOptions) data of
               Inl err \<Rightarrow> (Some err, sv)
             | Inr img \<Rightarrow> Value_SetImage L valf img sv)
          else (None, sv))"

definition missingRequired :: "string \<Rightarrow> error" where
  "missingRequired tag = GoError (''goform: missing required field ['' @ tag @ '']'')"

definition decodeMultipart ::
  "stdlib \<Rightarrow> Request \<Rightarrow> string \<Rightarrow> Value \<Rightarrow> Kind \<Rightarrow> flags \<Rightarrow> structval
     \<Rightarrow> error option \<times> structval" where
  "decodeMultipart L r tag valf kind tagOptions sv =
     (case MultipartForm r of
        Some File \<Rightarrow>
          (let headers = File tag in
           if length headers = 0 then
             (if required tagOptions then (Some (missingRequired tag), sv)
              else (None, sv))
           else decodeMultipartFile L valf kind tagOptions (headers ! 0) sv)
      | None \<Rightarrow>
          (if required tagOptions then (Some (missingRequired tag), sv)
           else (None, sv)))"

section \<open>The field dispatcher (unmarshal.go)\<close>

text \<open>
  One pass of the body of the loop of \<^verbatim>\<open>Unmarshal\<close>, for the declared field \<open>f\<close>:
  \<open>(None, sv')\<close> when the loop goes on with the struct \<open>sv'\<close>, \<open>(Some e, sv')\<close> when
  \<^verbatim>\<open>Unmarshal\<close> returns the error \<open>e\<close> (or panics) there.
\<close>

definition bindField ::
  "stdlib \<Rightarrow> Request \<Rightarrow> StructField \<Rightarrow> structval \<Rightarrow> error option \<times> structval" where
  "bindField L r f sv =
     (case parseTag (Tag_Get (Tag f) ''form'') of (tag, tagOptions) \<Rightarrow>
        if tag = [] \<or> tag = ''-'' then (None, sv)
        else
          (case (if kind_of (Type f) = KPtr
                 then (case Value_Set (FieldByName f) (VPtr (zero (Elem (Type f)))) sv of
                         (Some err, sv') \<Rightarrow> Inl (err, sv')
                       | (None, sv') \<Rightarrow>
                           Inr (kind_of (Elem (Type f)), Indirect (FieldByName f), sv'))
                 else Inr (kind_of (Type f), FieldByName f, sv)) of
             Inl (err, sv') \<Rightarrow> (Some err, sv')
           | Inr (kind, valf, sv') \<Rightarrow>
               (let formValues = Form r tag in
                if length formValues > 1
                then (Some (GoError ''goform: arrays not supported yet''), sv')
                else if length formValues = 0
                then decodeMultipart L r tag valf kind tagOptions sv'
                else decodeFormValue L valf kind f (formValues ! 0) sv')))"

fun bindFields ::
  "stdlib \<Rightarrow> Request \<Rightarrow> StructField list \<Rightarrow> structval \<Rightarrow> error option \<times> structval" where
  "bindFields L r [] sv = (None, sv)"
| "bindFields L r (f # fs) sv =
     (case bindField L r f sv of
        (Some err, sv') \<Rightarrow> (Some err, sv')
      | (None, sv') \<Rightarrow> bindFields L r fs sv')"

section \<open>Unmarshal\<close>

text \<open>
  What the caller passes as \<^verbatim>\<open>v\<close>: the nil interface, a value that is not a pointer, a
  nil pointer to a struct type with the given declared fields, a pointer to a struct
  (its declared fields and their values), or a non-nil pointer to something that is
  not a struct.
\<close>

datatype dest =
    NilInterface
  | NonPointer
  | NilPointer "StructField list"
  | PtrToStruct "StructField list" structval
  | PtrToNonStruct

text \<open>The calls into the request that \<^verbatim>\<open>Unmarshal\<close> makes, in the order it makes them.\<close>

datatype event = JSONDecode | ParseMultipartForm | BodyClose

text \<open>
  \<^verbatim>\<open>json.NewDecoder(r.Body).Decode(v)\<close>: a value is read from the body first; it is
  then unmarshalled into \<^verbatim>\<open>v\<close>, which fails with \<^verbatim>\<open>*json.InvalidUnmarshalError\<close> unless
  \<^verbatim>\<open>v\<close> is a non-nil pointer.
\<close>

definition json_Decode :: "Request \<Rightarrow> dest \<Rightarrow> error option \<times> dest" where
  "json_Decode r v =
     (case Body r of
        Inl err \<Rightarrow> (Some err, v)
      | Inr (unmarshal, errOther) \<Rightarrow>
          (case v of
             PtrToStruct fs sv \<Rightarrow>
               (case unmarshal sv of (err, sv') \<Rightarrow> (err, PtrToStruct fs sv'))
           | PtrToNonStruct \<Rightarrow> (errOther, v)
           | _ \<Rightarrow> (Some InvalidUnmarshalError, v)))"

text \<open>The first statements of \<^verbatim>\<open>Unmarshal\<close> after the media type is known: the JSON
  branch.\<close>

definition jsonStage :: "Request \<Rightarrow> string \<Rightarrow> dest \<Rightarrow> error option \<times> dest \<times> event list" where
  "jsonStage r mediaType v =
     (if mediaType = ''application/json''
      then (case json_Decode r v of (err, v') \<Rightarrow> (err, v', [JSONDecode]))
      else (None, v, []))"

definition skipped :: "StructField \<Rightarrow> bool" where
  "skipped f =
     (case parseTag (Tag_Get (Tag f) ''form'') of (tag, tagOptions) \<Rightarrow>
        tag = [] \<or> tag = ''-'')"

text \<open>
  The rest of \<^verbatim>\<open>Unmarshal\<close>: the pointer check, \<^verbatim>\<open>r.ParseMultipartForm\<close> and the loop
  over the declared fields.  Reflect panics on the nil interface (\<^verbatim>\<open>t.Kind()\<close> on a
  nil \<^verbatim>\<open>Type\<close>), on a pointer to a non-struct (\<^verbatim>\<open>t.NumField()\<close>) and, behind a nil
  pointer, at the first field that is not skipped (\<^verbatim>\<open>val.FieldByName\<close> on the zero
  \<^verbatim>\<open>Value\<close>).
\<close>

definition reflectStage ::
  "stdlib \<Rightarrow> Request \<Rightarrow> dest \<Rightarrow> error option \<times> dest \<times> event list" where
  "reflectStage L r v =
     (case v of
        NilInterface \<Rightarrow> (Some (Panic ''invalid memory address or nil pointer dereference''), v, [])
      | NonPointer \<Rightarrow> (Some (GoError ''goform: v must be a pointer''), v, [])
      | PtrToNonStruct \<Rightarrow>
          (Some (Panic ''reflect: NumField of non-struct type''), v, [ParseMultipartForm])
      | NilPointer fs \<Rightarrow>
          (if list_all skipped fs then (None, v, [ParseMultipartForm])
           else (Some (Panic ''reflect: call of reflect.Value.FieldByName on zero Value''),
                 v, [ParseMultipartForm]))
      | PtrToStruct fs sv \<Rightarrow>
          (case bindFields L r fs sv of
             (err, sv') \<Rightarrow> (err, PtrToStruct fs sv', [ParseMultipartForm])))"

text \<open>\<^verbatim>\<open>Unmarshal(r, v)\<close>: the error returned (\<open>None\<close> for nil), the destination as the
  call leaves it, and the calls made into the request.  \<^verbatim>\<open>r.Body.Close()\<close> is deferred
  once the media type has been parsed.\<close>

definition Unmarshal :: "stdlib \<Rightarrow> Request \<Rightarrow> dest \<Rightarrow> error option \<times> dest \<times> event list" where
  "Unmarshal L r v =
     (case mime_ParseMediaType L (Header_Get (Header r) ''Content-Type'') of
        Inl err \<Rightarrow> (Some err, v, [])
      | Inr mediaType \<Rightarrow>
          (case jsonStage r mediaType v of
             (Some err, v', tr) \<Rightarrow> (Some err, v', tr @ [BodyClose])
           | (None, v', tr) \<Rightarrow>
               (case reflectStage L r v' of
                  (err, v'', tr') \<Rightarrow> (err, v'', tr @ tr' @ [BodyClose]))))"

section \<open>The integer decoder in the words of the specification\<close>

text \<open>
  The integer kinds of \<^verbatim>\<open>decodeFormValue\<close>: whether the kind is signed, and the bit
  width it asks the parser for (0 is the platform's native width).
\<close>

definition integerKinds :: "Kind list" where
  "integerKinds = [KInt, KInt8, KInt16, KInt32, KInt64, KUint, KUint8, KUint16, KUint32, KUint64]"

definition signedKind :: "Kind \<Rightarrow> bool" where
  "signedKind kind = (kind \<in> set [KInt, KInt8, KInt16, KInt32, KInt64])"

definition widthOfKind :: "Kind \<Rightarrow> int" where
  "widthOfKind kind =
     (if kind = KInt8 \<or> kind = KUint8 then 8
      else if kind = KInt16 \<or> kind = KUint16 then 16
      else if kind = KInt32 \<or> kind = KUint32 then 32
      else if kind = KInt64 \<or> kind = KUint64 then 64
      else 0)"

text \<open>The number of bits of a requested width.\<close>

definition bitsOf :: "int \<Rightarrow> nat" where
  "bitsOf bitSize = nat (if bitSize = 0 then IntSize else bitSize)"

text \<open>
  The specification's integer decoder: parse the raw value as an integer of the
  requested signedness and bit width in the given base (the library's parser), and
  give the integer to assign, or fail with the parse error.
\<close>

definition spec_parseInteger :: "bool \<Rightarrow> string \<Rightarrow> int \<Rightarrow> int \<Rightarrow> error + val" where
  "spec_parseInteger signed raw b bitSize =
     (if signed
      then (case ParseInt raw b bitSize of
              (n, None) \<Rightarrow> Inr (VInt n)
            | (n, Some err) \<Rightarrow> Inl err)
      else (case ParseUint raw b bitSize of
              (n, None) \<Rightarrow> Inr (VUint n)
            | (n, Some err) \<Rightarrow> Inl err))"

text \<open>
  Read the base annotation, base 10 when there is none; fail when the annotation is
  there and is not a valid base-10 integer (of 32 bits, as the code parses it);
  otherwise parse the raw value in that base.
\<close>

definition spec_decodeInteger ::
  "bool \<Rightarrow> (string \<times> string) list \<Rightarrow> int \<Rightarrow> string \<Rightarrow> error + val" where
  "spec_decodeInteger signed tag bitSize raw =
     (case Tag_Lookup tag ''base'' of
        None \<Rightarrow> spec_parseInteger signed raw 10 bitSize
      | Some baseStr \<Rightarrow>
          (case ParseInt baseStr 10 32 of
             (b, Some err) \<Rightarrow> Inl (GoError ''invalid int base'')
           | (b, None) \<Rightarrow> spec_parseInteger signed raw b bitSize))"

text \<open>The values a field of the given signedness and width can hold.\<close>

fun fitsWidth :: "bool \<Rightarrow> nat \<Rightarrow> val \<Rightarrow> bool" where
  "fitsWidth True bits (VInt n) = (- (2 ^ (bits - 1)) \<le> n \<and> n < 2 ^ (bits - 1))"
| "fitsWidth False bits (VUint n) = (n < 2 ^ bits)"
| "fitsWidth signed bits x = False"

text \<open>The errors of the specification's class \<^verbatim>\<open>ParseError\<close> that the integer decoders
  return: the error of a bad base annotation and the parser's \<^verbatim>\<open>*NumError\<close>.\<close>

fun isParseError :: "error \<Rightarrow> bool" where
  "isParseError (GoError msg) = (msg = ''invalid int base'')"
| "isParseError (NumError fn num err) = True"
| "isParseError e = False"

section \<open>The canonical text of a scalar\<close>

text \<open>
  The canonical text forms that the round-trip property of the specification speaks
  of: \<^verbatim>\<open>strconv.FormatBool\<close>, \<^verbatim>\<open>strconv.FormatUint(n, 10)\<close> and
  \<^verbatim>\<open>strconv.FormatInt(i, 10)\<close> (decimal digits without leading zeros, a minus sign for
  a negative integer), \<^verbatim>\<open>strconv.FormatFloat\<close> at the width of the kind, and a string
  itself.
\<close>

definition FormatBool :: "bool \<Rightarrow> string" where
  "FormatBool b = (if b then ''true'' else ''false'')"

definition digitChar :: "nat \<Rightarrow> char" where
  "digitChar d = char_of (of_char (CHR ''0'') + d)"

function FormatUint :: "nat \<Rightarrow> string" where
  "FormatUint n =
     (if n < 10 then [digitChar n] else FormatUint (n div 10) @ [digitChar (n mod 10)])"
  by pat_completeness auto
termination
  by (relation "measure (\<lambda>n. n)") auto

definition FormatInt :: "int \<Rightarrow> string" where
  "FormatInt i = (if i < 0 then CHR ''-'' # FormatUint (nat (- i)) else FormatUint (nat i))"

definition floatKinds :: "Kind list" where
  "floatKinds = [KFloat32, KFloat64]"

definition widthOfFloat :: "Kind \<Rightarrow> int" where
  "widthOfFloat kind = (if kind = KFloat32 then 32 else 64)"

fun canonicalText :: "stdlib \<Rightarrow> Kind \<Rightarrow> val \<Rightarrow> string" where
  "canonicalText L kind (VBool b) = FormatBool b"
| "canonicalText L kind (VInt i) = FormatInt i"
| "canonicalText L kind (VUint n) = FormatUint n"
| "canonicalText L kind (VFloat x) = strconv_FormatFloat L x (widthOfFloat kind)"
| "canonicalText L kind (VString s) = s"
| "canonicalText L kind x = []"

text \<open>
  What the documentation of \<^verbatim>\<open>strconv.FormatFloat\<close> promises of the collaborators for a
  finite float \<open>x\<close> of the width \<open>bitSize\<close>: with the precision \<^verbatim>\<open>-1\<close> the text has the
  smallest number of digits necessary for \<^verbatim>\<open>ParseFloat\<close> to return \<open>x\<close> exactly; it is a
  text of digits, none of the special values.
\<close>

definition libraryRoundTrip :: "stdlib \<Rightarrow> gofloat \<Rightarrow> int \<Rightarrow> bool" where
  "libraryRoundTrip L x bitSize =
     (special (FormatFloat L x bitSize) = None \<and>
      ParseFloat L (FormatFloat L x bitSize) bitSize = Inr x)"

section \<open>Example collaborators, struct types and requests\<close>

text \<open>
  A concrete instance of the collaborators, for running the binder on examples: the
  media type is the header value up to its first semicolon, the base64 decoder
  decodes the standard alphabet with padding, the float parser and formatter know the
  one float 1.5, no type but \<^verbatim>\<open>image.Image\<close> has its methods, and times and images are not
  decoded at all.
\<close>

definition b64val :: "char \<Rightarrow> nat option" where
  "b64val c =
     (let n = (of_char c :: nat) in
      if 65 \<le> n \<and> n \<le> 90 then Some (n - 65)
      else if 97 \<le> n \<and> n \<le> 122 then Some (n - 71)
      else if 48 \<le> n \<and> n \<le> 57 then Some (n + 4)
      else if n = 43 then Some 62
      else if n = 47 then Some 63
      else None)"

fun b64decode :: "string \<Rightarrow> bytes option" where
  "b64decode (a # b # c # d # rest) =
     (case (b64val a, b64val b) of
        (Some x, Some y) \<Rightarrow>
          if c = CHR ''='' \<and> d = CHR ''='' \<and> rest = []
          then Some [char_of (x * 4 + y div 16)]
          else
            (case b64val c of
               None \<Rightarrow> None
             | Some z \<Rightarrow>
                 if d = CHR ''='' \<and> rest = []
                 then Some [char_of (x * 4 + y div 16), char_of ((y mod 16) * 16 + z div 4)]
                 else
                   (case b64val d of
                      None \<Rightarrow> None
                    | Some w \<Rightarrow>
                        (case b64decode rest of
                           None \<Rightarrow> None
                         | Some bs \<Rightarrow>
                             Some (char_of (x * 4 + y div 16)
                                   # char_of ((y mod 16) * 16 + z div 4)
                                   # char_of ((z mod 4) * 64 + w) # bs))))
      | _ \<Rightarrow> None)"
| "b64decode [] = Some []"
| "b64decode s = None"

text \<open>The bit pattern of the float 1.5: exponent field 1023, mantissa \<open>2 ^ 51\<close>.\<close>

definition onePointFive :: gofloat where
  "onePointFive = 1023 * 2 ^ 52 + 2 ^ 51"

definition exLib :: stdlib where
  "exLib =
     \<lparr>ParseMediaType = (\<lambda>v. Inr (takeWhile (\<lambda>c. c \<noteq> CHR '';'') v)),
      ParseFloat = (\<lambda>value bitSize.
         if value = ''1.5'' then Inr onePointFive else Inl (LibError ''strconv.ParseFloat'')),
      FormatFloat = (\<lambda>x bitSize. if x = onePointFive then ''1.5'' else ''?''),
      time_Parse = (\<lambda>layout value. Inl (LibError ''time.Parse'')),
      time_LoadLocation = (\<lambda>name. Inl (LibError ''time.LoadLocation'')),
      time_ParseInLocation = (\<lambda>layout value loc. Inl (LibError ''time.ParseInLocation'')),
      base64_ReadAll = (\<lambda>data.
         case readError data of
           Some err \<Rightarrow> Inl err
         | None \<Rightarrow>
             (case b64decode (content data) of
                None \<Rightarrow> Inl (LibError ''illegal base64 data'')
              | Some bs \<Rightarrow> Inr bs)),
      image_Decode = (\<lambda>b64 data. Inl (LibError ''image: unknown format'')),
      Implements = (\<lambda>t. False),
      AssignableTo = (\<lambda>img t. False)\<rparr>"

text \<open>An exported field with a \<^verbatim>\<open>form\<close> tag.\<close>

definition formField :: "string \<Rightarrow> gotype \<Rightarrow> string \<Rightarrow> StructField" where
  "formField name ty tag = \<lparr>Name = name, Type = ty, Tag = [(''form'', tag)], exported = True\<rparr>"

text \<open>
  \<^verbatim>\<open>struct { A int `form:"a"`; B *string `form:"b"`; C int8 `form:"c"`; D string `form:"d"` }\<close>
\<close>

definition exFields :: "StructField list" where
  "exFields =
     [formField ''A'' TInt ''a'', formField ''B'' (TPtr TString) ''b'',
      formField ''C'' TInt8 ''c'', formField ''D'' TString ''d'']"

text \<open>The zero value of a struct with the given declared fields, and of the example
  struct.\<close>

definition zeroStruct :: "StructField list \<Rightarrow> structval" where
  "zeroStruct fs =
     (\<lambda>n. case find (\<lambda>f. Name f = n) fs of None \<Rightarrow> VOpaque | Some f \<Rightarrow> zero (Type f))"

definition exZero :: structval where
  "exZero = zeroStruct exFields"

text \<open>A request with the given Content-Type header and form values, no multipart
  form and no JSON value in its body.\<close>

definition formRequest :: "string \<Rightarrow> (string \<times> string list) list \<Rightarrow> Request" where
  "formRequest ct form =
     \<lparr>Header = (\<lambda>k. if k = ''Content-Type'' then [ct] else []),
      Form = (\<lambda>k. case map_of form k of None \<Rightarrow> [] | Some vs \<Rightarrow> vs),
      MultipartForm = None,
      Body = Inl (LibError ''EOF'')\<rparr>"

definition urlencoded :: string where
  "urlencoded = ''application/x-www-form-urlencoded''"

text \<open>\<^verbatim>\<open>a=1&b=x&b=y&d=z\<close>: two values for the key of \<open>B\<close>.\<close>

definition exMultiValue :: Request where
  "exMultiValue = formRequest urlencoded [(''a'', [''1'']), (''b'', [''x'', ''y'']), (''d'', [''z''])]"

text \<open>\<^verbatim>\<open>a=1&b=hi&c=300&d=z\<close>: the value of \<open>C\<close> does not fit 8 bits.\<close>

definition exRange :: Request where
  "exRange =
     formRequest urlencoded [(''a'', [''1'']), (''b'', [''hi'']), (''c'', [''300'']), (''d'', [''z''])]"

text \<open>\<^verbatim>\<open>a=1\<close>: nothing for the other keys.\<close>

definition exOnlyA :: Request where
  "exOnlyA = formRequest urlencoded [(''a'', [''1''])]"

text \<open>A multipart request with the form value \<^verbatim>\<open>a=1\<close> and one file part under the key
  \<^verbatim>\<open>up\<close>, whose content is the base64 text \<^verbatim>\<open>QUJDRA==\<close> (of the bytes \<^verbatim>\<open>ABCD\<close>).\<close>

definition exUpload :: FileHeader where
  "exUpload = FileHeader (Inr \<lparr>content = ''QUJDRA=='', readError = None\<rparr>)"

definition exMultipart :: Request where
  "exMultipart =
     \<lparr>Header = (\<lambda>k. if k = ''Content-Type'' then [''multipart/form-data; boundary=xyz''] else []),
      Form = (\<lambda>k. if k = ''a'' then [''1''] else []),
      MultipartForm = Some (\<lambda>k. if k = ''up'' then [exUpload] else []),
      Body = Inl (LibError ''EOF'')\<rparr>"

text \<open>A GET request with the query string \<^verbatim>\<open>a=1&d=z\<close> and no Content-Type header.\<close>

definition exQueryGet :: Request where
  "exQueryGet =
     \<lparr>Header = (\<lambda>k. []),
      Form = (\<lambda>k. if k = ''a'' then [''1''] else if k = ''d'' then [''z''] else []),
      MultipartForm = None,
      Body = Inl (LibError ''EOF'')\<rparr>"

text \<open>
  The request of the repository's test \<^verbatim>\<open>TestUnmarshal_RequiredMissing\<close>: the media type
  is \<^verbatim>\<open>application/json\<close>, the body is a JSON object none of whose keys matches a
  field of the destination \<^verbatim>\<open>struct { Something string `form:"something,required"` }\<close>,
  and there are no form values.
\<close>

definition exRequired :: StructField where
  "exRequired = formField ''Something'' TString ''something,required''"

definition exJSON :: Request where
  "exJSON =
     \<lparr>Header = (\<lambda>k. if k = ''Content-Type'' then [''application/json''] else []),
      Form = (\<lambda>k. []),
      MultipartForm = None,
      Body = Inr (\<lambda>sv. (None, sv), None)\<rparr>"

text \<open>\<^verbatim>\<open>struct { Tags []string `form:"tags"` }\<close> and the request \<^verbatim>\<open>tags=x\<close>.\<close>

definition exTagsField :: StructField where
  "exTagsField = formField ''Tags'' (TSlice TString) ''tags''"

definition exTags :: Request where
  "exTags = formRequest urlencoded [(''tags'', [''x''])]"

text \<open>\<^verbatim>\<open>Up []byte `form:"up"`\<close> and \<^verbatim>\<open>Up []byte `form:"up,base64"`\<close>.\<close>

definition exUpField :: StructField where
  "exUpField = formField ''Up'' (TSlice TUint8) ''up''"

definition exUp64Field :: StructField where
  "exUp64Field = formField ''Up'' (TSlice TUint8) ''up,base64''"

text \<open>A multipart request with no form value and two file parts under the key
  \<^verbatim>\<open>up\<close>.\<close>

definition exUpload2 :: FileHeader where
  "exUpload2 = FileHeader (Inr \<lparr>content = ''second'', readError = None\<rparr>)"

definition exTwoFiles :: Request where
  "exTwoFiles =
     \<lparr>Header = (\<lambda>k. if k = ''Content-Type'' then [''multipart/form-data; boundary=xyz''] else []),
      Form = (\<lambda>k. []),
      MultipartForm = Some (\<lambda>k. if k = ''up'' then [exUpload, exUpload2] else []),
      Body = Inl (LibError ''EOF'')\<rparr>"

text \<open>
  \<^verbatim>\<open>struct { Something string `form:"something,required"`; ID int `json:"id"` }\<close> and
  a JSON request whose body \<^verbatim>\<open>{"id": 1}\<close> sets \<open>ID\<close>; there are no form values.
\<close>

definition exJSONFields :: "StructField list" where
  "exJSONFields =
     [exRequired, \<lparr>Name = ''ID'', Type = TInt, Tag = [(''json'', ''id'')], exported = True\<rparr>]"

definition exJSONid :: Request where
  "exJSONid =
     \<lparr>Header = (\<lambda>k. if k = ''Content-Type'' then [''application/json''] else []),
      Form = (\<lambda>k. []),
      MultipartForm = None,
      Body = Inr (\<lambda>sv. (None, sv(''ID'' := VInt 1)), None)\<rparr>"

text \<open>The fields \<^verbatim>\<open>F float64 `form:"f"`\<close> and \<^verbatim>\<open>p *string `form:"p,required"`\<close> (not
  exported).\<close>

definition exFloatField :: StructField where
  "exFloatField = formField ''F'' TFloat64 ''f''"

definition exHiddenPointer :: StructField where
  "exHiddenPointer =
     \<lparr>Name = ''p'', Type = TPtr TString, Tag = [(''form'', ''p,required'')], exported = False\<rparr>"

text \<open>The field \<^verbatim>\<open>H int16 `form:"h" base:"16"`\<close>.\<close>

definition exHexField :: StructField where
  "exHexField =
     \<lparr>Name = ''H'', Type = TInt16, Tag = [(''form'', ''h''), (''base'', ''16'')], exported = True\<rparr>"

section \<open>Unfolding rules for running the model\<close>

lemmas field_defs =
  bindField_def parseTag_def Tag_Get_def Tag_Lookup_def FieldByName_def Indirect_def
  Value_Set_def decodeMultipart_def decodeMultipartFile_def decodeFormValue_def
  decodeBool_def decodeInt_def decodeUint_def decodeFloat_def decodeStruct_def
  base_def missingRequired_def ReadAll_def Implements_Image_def Value_SetImage_def Let_def

lemmas float_defs =
  strconv_ParseFloat_def strconv_FormatFloat_def special_def equalIgnoreCase_def
  lowerASCII_def float32_of_special_def isNaN_def posInf_def negInf_def quietNaN_def
  float_eq_def widthOfFloat_def byte_le_def char_of_def bit_0

lemmas strconv_defs =
  ParseInt_def ParseUint_def ParseUint_base_def IntSize_def maxUint64_def digitVal_def
  byte_le_def int64_of_uint64_def neg_int64_def numerr_of_def syntaxError_def
  rangeError_def baseError_def bitSizeError_def fnParseInt_def fnParseUint_def
  fnParseBool_def ParseBool_def lower_def underscoreOK_def char_of_def bit_0

lemmas unmarshal_defs =
  Unmarshal_def mime_ParseMediaType_def Header_Get_def jsonStage_def json_Decode_def
  reflectStage_def

lemmas example_defs =
  exLib_def formField_def exFields_def exHexField_def exZero_def zeroStruct_def
  formRequest_def exRequired_def exJSON_def exTagsField_def exTags_def exUpField_def
  exUp64Field_def fileParts_def b64val_def onePointFive_def exUpload2_def exTwoFiles_def
  exJSONFields_def exJSONid_def exFloatField_def exHiddenPointer_def
  urlencoded_def exMultiValue_def exRange_def exOnlyA_def exUpload_def exMultipart_def
  exQueryGet_def


section \<open>What one pass of the loop can change\<close>

text \<open>A decoder, and so one pass of the loop, writes at most the field it is at.\<close>

lemma Value_Set_frame:
  "n \<noteq> vname valf \<Longrightarrow> snd (Value_Set valf x sv) n = sv n"
  by (simp add: Value_Set_def)

lemma decodeBool_frame:
  "n \<noteq> vname valf \<Longrightarrow> snd (decodeBool valf value sv) n = sv n"
  by (simp add: decodeBool_def Value_Set_frame split: sum.splits)

lemma decodeFloat_frame:
  "n \<noteq> vname valf \<Longrightarrow> snd (decodeFloat L valf bitSize value sv) n = sv n"
  by (simp add: decodeFloat_def Value_Set_frame split: sum.splits)

lemma decodeInt_frame:
  "n \<noteq> vname valf \<Longrightarrow> snd (decodeInt valf tag bitSize value sv) n = sv n"
  by (simp add: decodeInt_def Value_Set_frame split: prod.splits option.splits)

lemma decodeUint_frame:
  "n \<noteq> vname valf \<Longrightarrow> snd (decodeUint valf tag bitSize value sv) n = sv n"
  by (simp add: decodeUint_def Value_Set_frame split: prod.splits option.splits)

lemma decodeStruct_frame:
  "n \<noteq> vname valf \<Longrightarrow> snd (decodeStruct L valf f formValue sv) n = sv n"
  by (simp add: decodeStruct_def Value_Set_frame Let_def split: sum.splits)

lemma decodeFormValue_frame:
  "n \<noteq> vname valf \<Longrightarrow> snd (decodeFormValue L valf kind f formValue sv) n = sv n"
  by (cases kind)
     (simp_all add: decodeFormValue_def Value_Set_frame decodeBool_frame decodeFloat_frame
        decodeInt_frame decodeUint_frame decodeStruct_frame)

lemma Value_SetImage_frame:
  "n \<noteq> vname valf \<Longrightarrow> snd (Value_SetImage L valf img sv) n = sv n"
  by (simp add: Value_SetImage_def Value_Set_frame)

lemma decodeMultipartFile_frame:
  "n \<noteq> vname valf \<Longrightarrow> snd (decodeMultipartFile L valf kind tagOptions hdr sv) n = sv n"
  by (simp add: decodeMultipartFile_def Value_Set_frame Value_SetImage_frame split: sum.splits)

lemma decodeMultipart_frame:
  "n \<noteq> vname valf \<Longrightarrow> snd (decodeMultipart L r tag valf kind tagOptions sv) n = sv n"
  by (simp add: decodeMultipart_def decodeMultipartFile_frame Let_def split: option.splits)

lemma bindField_frame:
  "n \<noteq> Name f \<Longrightarrow> snd (bindField L r f sv) n = sv n"
  by (simp add: bindField_def Let_def Value_Set_def FieldByName_def Indirect_def
        decodeMultipart_frame decodeFormValue_frame split: prod.splits)

lemma bindFields_frame:
  "n \<notin> set (map Name fs) \<Longrightarrow> snd (bindFields L r fs sv) n = sv n"
proof (induction fs arbitrary: sv)
  case Nil
  then show ?case by simp
next
  case (Cons f fs)
  from Cons.prems have n: "n \<noteq> Name f" "n \<notin> set (map Name fs)" by auto
  show ?case
  proof (cases "bindField L r f sv")
    case (Pair e sv')
    have sv': "sv' n = sv n" using bindField_frame [OF n(1), of L r sv] Pair by simp
    show ?thesis
    proof (cases e)
      case None
      then show ?thesis using Pair Cons.IH [OF n(2), of sv'] sv' by simp
    next
      case (Some err)
      then show ?thesis using Pair sv' by simp
    qed
  qed
qed

section \<open>The loop stops at the first failure\<close>

lemma bindFields_append:
  "bindFields L r (xs @ ys) sv =
     (case bindFields L r xs sv of
        (Some err, sv') \<Rightarrow> (Some err, sv')
      | (None, sv') \<Rightarrow> bindFields L r ys sv')"
  by (induction xs arbitrary: sv) (auto split: prod.splits option.splits)



lemma bindFields_append_None:
  "fst (bindFields L r xs sv) = None \<Longrightarrow>
     bindFields L r (xs @ ys) sv = bindFields L r ys (snd (bindFields L r xs sv))"
  by (cases "bindFields L r xs sv") (simp add: bindFields_append)

lemma bindFields_prefix_None:
  "fst (bindFields L r (xs @ ys) sv) = None \<Longrightarrow> fst (bindFields L r xs sv) = None"
  by (cases "bindFields L r xs sv") (auto simp: bindFields_append split: option.splits)

lemma bindFields_stop:
  "fst (bindField L r f sv) = Some e \<Longrightarrow> bindFields L r (f # post) sv = (Some e, snd (bindField L r f sv))"
  by (cases "bindField L r f sv") simp

lemma Unmarshal_PtrToStruct:
  assumes "mime_ParseMediaType L (Header_Get (Header r) ''Content-Type'') = Inr mt"
    and "jsonStage r mt v = (None, PtrToStruct fs sv, tr)"
  shows "Unmarshal L r v =
           (fst (bindFields L r fs sv), PtrToStruct fs (snd (bindFields L r fs sv)),
            tr @ [ParseMultipartForm, BodyClose])"
  using assms by (simp add: Unmarshal_def reflectStage_def split: prod.splits)

lemma bindField_multi:
  assumes "parseTag (Tag_Get (Tag f) ''form'') = (tag, opts)" "tag \<noteq> []" "tag \<noteq> ''-''"
    and "length (Form r tag) > 1"
    and "kind_of (Type f) = KPtr \<longrightarrow> exported f"
  shows "bindField L r f sv =
           (Some (GoError ''goform: arrays not supported yet''),
            if kind_of (Type f) = KPtr then sv(Name f := VPtr (zero (Elem (Type f)))) else sv)"
  using assms by (simp add: bindField_def Value_Set_def FieldByName_def Let_def)

text \<open>A pointer field that is not exported: \<^verbatim>\<open>valf.Set\<close> panics when the loop allocates
  the pointee, before the request is consulted.\<close>

lemma bindField_unexported_pointer:
  assumes "parseTag (Tag_Get (Tag f) ''form'') = (tag, opts)" "tag \<noteq> []" "tag \<noteq> ''-''"
    and "kind_of (Type f) = KPtr" "\<not> exported f"
  shows "bindField L r f sv =
           (Some (Panic ''reflect: value obtained using unexported field''), sv)"
  using assms by (simp add: bindField_def Value_Set_def FieldByName_def Let_def)

lemma bindField_multi_all:
  assumes tag: "parseTag (Tag_Get (Tag f) ''form'') = (tag, opts)" "tag \<noteq> []" "tag \<noteq> ''-''"
    and multi: "length (Form r tag) > 1"
  shows "bindField L r f sv =
           (if kind_of (Type f) = KPtr \<and> \<not> exported f
            then (Some (Panic ''reflect: value obtained using unexported field''), sv)
            else (Some (GoError ''goform: arrays not supported yet''),
                  if kind_of (Type f) = KPtr then sv(Name f := VPtr (zero (Elem (Type f))))
                  else sv))"
proof (cases "kind_of (Type f) = KPtr \<and> \<not> exported f")
  case True
  then show ?thesis
    using bindField_unexported_pointer [OF tag, of L r sv] by simp
next
  case False
  then have "kind_of (Type f) = KPtr \<longrightarrow> exported f"
    by simp
  from bindField_multi [OF tag multi this, of L sv] False show ?thesis
    by simp
qed

section \<open>More than one value for a key\<close>

text \<open>
  Claim C3 says that the bind fails whenever the key of a field maps to more than one
  raw value in the value sources of the request.  The loop counts the form values
  only (\<^verbatim>\<open>r.Form\<close>); of the file parts under a key \<^verbatim>\<open>decodeMultipart\<close> decodes the first
  and ignores the others.  With a multipart request that has no form value and two
  file parts under \<^verbatim>\<open>up\<close>, the bind of \<^verbatim>\<open>Up []byte `form:"up"`\<close> succeeds and the field
  holds the bytes of the first part.
\<close>

theorem two_file_parts_accepted:
  "Form exTwoFiles ''up'' = [] \<and> length (fileParts exTwoFiles ''up'') = 2 \<and>
   Unmarshal exLib exTwoFiles (PtrToStruct [exUpField] (zeroStruct [exUpField])) =
     (None, PtrToStruct [exUpField] ((zeroStruct [exUpField])(''Up'' := VBytes ''QUJDRA=='')),
      [ParseMultipartForm, BodyClose])"
  by (simp add: unmarshal_defs field_defs example_defs)

text \<open>
  Claim C3, as amended.  Let \<open>f\<close> be a declared field whose tag is a key other than the
  empty string and \<^verbatim>\<open>-\<close>, and let the request hold more than one form value for that
  key (in \<^verbatim>\<open>r.Form\<close>, where the query string and the body meet; file parts are not
  counted).  Then \<^verbatim>\<open>Unmarshal\<close> fails; and when the fields declared before \<open>f\<close> bind
  without error, the bind stops at \<open>f\<close> and no field declared after \<open>f\<close> is processed:
  \<^item> when \<open>f\<close> is a pointer field that is not exported, reflect panics as the loop
    allocates its pointee, before the values are counted, and the struct is left as
    the earlier fields left it;
  \<^item> otherwise the call returns \<^verbatim>\<open>goform: arrays not supported yet\<close>, and the struct is
    left as the earlier fields left it, with the pointee of \<open>f\<close> allocated when \<open>f\<close> is
    a pointer.
\<close>

theorem multi_value_aborts:
  assumes mt: "mime_ParseMediaType L (Header_Get (Header r) ''Content-Type'') = Inr mt"
    and js: "jsonStage r mt v = (None, PtrToStruct (pre @ f # post) sv, tr)"
    and tag: "parseTag (Tag_Get (Tag f) ''form'') = (tag, opts)" "tag \<noteq> []" "tag \<noteq> ''-''"
    and multi: "length (Form r tag) > 1"
  shows "fst (Unmarshal L r v) \<noteq> None \<and>
         (fst (bindFields L r pre sv) = None \<longrightarrow>
            Unmarshal L r v =
              (if kind_of (Type f) = KPtr \<and> \<not> exported f
               then (Some (Panic ''reflect: value obtained using unexported field''),
                     PtrToStruct (pre @ f # post) (snd (bindFields L r pre sv)),
                     tr @ [ParseMultipartForm, BodyClose])
               else (Some (GoError ''goform: arrays not supported yet''),
                     PtrToStruct (pre @ f # post)
                       (if kind_of (Type f) = KPtr
                        then (snd (bindFields L r pre sv))(Name f := VPtr (zero (Elem (Type f))))
                        else snd (bindFields L r pre sv)),
                     tr @ [ParseMultipartForm, BodyClose])))"
proof -
  note U = Unmarshal_PtrToStruct [OF mt js]
  note step = bindField_multi_all [OF tag multi, of L]
  have fails: "fst (bindFields L r (pre @ f # post) sv) \<noteq> None"
  proof (cases "fst (bindFields L r pre sv)")
    case None
    then show ?thesis
      by (simp add: bindFields_append_None step)
  next
    case (Some e)
    then show ?thesis
      by (cases "bindFields L r pre sv") (simp add: bindFields_append)
  qed
  have reached: "bindFields L r (pre @ f # post) sv =
      (if kind_of (Type f) = KPtr \<and> \<not> exported f
       then (Some (Panic ''reflect: value obtained using unexported field''),
             snd (bindFields L r pre sv))
       else (Some (GoError ''goform: arrays not supported yet''),
             if kind_of (Type f) = KPtr
             then (snd (bindFields L r pre sv))(Name f := VPtr (zero (Elem (Type f))))
             else snd (bindFields L r pre sv)))"
    if "fst (bindFields L r pre sv) = None"
    using that by (simp add: bindFields_append_None step)
  show ?thesis
  proof (intro conjI impI)
    show "fst (Unmarshal L r v) \<noteq> None"
      using U fails by simp
  next
    assume "fst (bindFields L r pre sv) = None"
    from reached [OF this] U show "Unmarshal L r v =
              (if kind_of (Type f) = KPtr \<and> \<not> exported f
               then (Some (Panic ''reflect: value obtained using unexported field''),
                     PtrToStruct (pre @ f # post) (snd (bindFields L r pre sv)),
                     tr @ [ParseMultipartForm, BodyClose])
               else (Some (GoError ''goform: arrays not supported yet''),
                     PtrToStruct (pre @ f # post)
                       (if kind_of (Type f) = KPtr
                        then (snd (bindFields L r pre sv))(Name f := VPtr (zero (Elem (Type f))))
                        else snd (bindFields L r pre sv)),
                     tr @ [ParseMultipartForm, BodyClose]))"
      by simp
  qed
qed

text \<open>The request \<^verbatim>\<open>a=1&b=x&b=y&d=z\<close> against the example struct: the bind stops
  at \<open>B\<close>; \<open>A\<close> keeps its value and \<open>D\<close> is not bound.\<close>

theorem multi_value_aborts_witness:
  "mime_ParseMediaType exLib (Header_Get (Header exMultiValue) ''Content-Type'') = Inr urlencoded \<and>
   jsonStage exMultiValue urlencoded (PtrToStruct exFields exZero) = (None, PtrToStruct exFields exZero, []) \<and>
   parseTag (Tag_Get (Tag (formField ''B'' (TPtr TString) ''b'')) ''form'') = (''b'', \<lparr>base64 = False, required = False\<rparr>) \<and>
   length (Form exMultiValue ''b'') = 2 \<and>
   fst (bindFields exLib exMultiValue [formField ''A'' TInt ''a''] exZero) = None \<and>
   Unmarshal exLib exMultiValue (PtrToStruct exFields exZero) =
     (Some (GoError ''goform: arrays not supported yet''),
      PtrToStruct exFields (exZero(''A'' := VInt 1, ''B'' := VPtr (VString []))),
      [ParseMultipartForm, BodyClose])"
  using multi_value_aborts [where L = exLib and r = exMultiValue and mt = urlencoded
      and v = "PtrToStruct exFields exZero" and pre = "[formField ''A'' TInt ''a'']"
      and f = "formField ''B'' (TPtr TString) ''b''"
      and post = "[formField ''C'' TInt8 ''c'', formField ''D'' TString ''d'']"
      and sv = exZero and tr = "[]" and tag = "''b''"
      and opts = "\<lparr>base64 = False, required = False\<rparr>"]
  by (simp add: unmarshal_defs field_defs strconv_defs example_defs)

section \<open>No rollback, and nothing after the failing field\<close>

lemma take_Suc_split:
  "j < i \<Longrightarrow> i \<le> length fs \<Longrightarrow> take i fs = take (Suc j) fs @ drop (Suc j) (take i fs)"
proof -
  assume "j < i" "i \<le> length fs"
  then have "take (Suc j) (take i fs) = take (Suc j) fs"
    by (simp add: min_def)
  then show ?thesis
    using append_take_drop_id [of "Suc j" "take i fs"] by simp
qed

lemma distinct_Name_nth:
  assumes "distinct (map Name fs)" "a < length fs" "b < length fs"
    and "Name (fs ! a) = Name (fs ! b)"
  shows "a = b"
  using assms nth_eq_iff_index_eq [of "map Name fs" a b] by simp

lemma rest_names:
  assumes dist: "distinct (map Name fs)" and i: "i < length fs" and that: "j < i"
  shows "Name (fs ! j) \<notin> set (map Name (drop (Suc j) (take i fs)))"
proof
  let ?rest = "drop (Suc j) (take i fs)"
  assume "Name (fs ! j) \<in> set (map Name ?rest)"
  then obtain k where k: "k < length ?rest" "Name (?rest ! k) = Name (fs ! j)"
    by (auto simp: in_set_conv_nth)
  from k(1) i have lt: "Suc j + k < i"
    by simp
  with k(2) i have "Name (fs ! (Suc j + k)) = Name (fs ! j)"
    by simp
  then have "Suc j + k = j"
    using distinct_Name_nth [OF dist, of "Suc j + k" j] that i lt by simp
  then show False by simp
qed

lemma prefix_ok:
  assumes pre: "fst (bindFields L r (take i fs) sv) = None" and i: "i < length fs" and that: "j < i"
  shows "fst (bindFields L r (take (Suc j) fs) sv) = None"
proof -
  have split: "take i fs = take (Suc j) fs @ drop (Suc j) (take i fs)"
    using that i by (intro take_Suc_split) simp_all
  show ?thesis
    using pre bindFields_prefix_None [of L r "take (Suc j) fs" "drop (Suc j) (take i fs)" sv]
    by (simp only: split [symmetric])
qed

text \<open>
  Claim C5 says that a call that fails at the field of index \<open>i\<close> modifies no field of
  a greater index.  When the media type is \<^verbatim>\<open>application/json\<close> the JSON decoder has
  written the struct before the loop starts: with the body \<^verbatim>\<open>{"id": 1}\<close> and no form
  value, the bind fails at the required field \<open>Something\<close> (index 0), and the field
  \<open>ID\<close> (index 1), zero when the caller passed the struct, holds 1 when the error is
  returned.
\<close>

theorem json_decoder_changes_later_field:
  "fst (bindField exLib exJSONid (exJSONFields ! 0) ((zeroStruct exJSONFields)(''ID'' := VInt 1)))
     = Some (GoError ''goform: missing required field [something]'') \<and>
   Name (exJSONFields ! 1) = ''ID'' \<and> zeroStruct exJSONFields ''ID'' = VInt 0 \<and>
   Unmarshal exLib exJSONid (PtrToStruct exJSONFields (zeroStruct exJSONFields)) =
     (Some (GoError ''goform: missing required field [something]''),
      PtrToStruct exJSONFields ((zeroStruct exJSONFields)(''ID'' := VInt 1)),
      [JSONDecode, ParseMultipartForm, BodyClose])"
  by (simp add: unmarshal_defs field_defs example_defs)

text \<open>
  Claim C5, as amended.  Let the destination be a pointer to a struct whose declared
  fields have distinct names, and let the bind fail while the loop processes the field
  at index \<open>i\<close>: the fields before it bind without error and the pass for field \<open>i\<close>
  returns the error \<open>e\<close>.  Then \<^verbatim>\<open>Unmarshal\<close> returns \<open>e\<close>; the loop modifies no field
  declared after index \<open>i\<close>, which holds what it held when the loop was entered
  (\<open>sv\<close>: the struct as the caller passed it when the media type is not
  \<^verbatim>\<open>application/json\<close>, and as the JSON decoder left it when it is); and every field
  declared before index \<open>i\<close> holds what its own pass of the loop left in it.
\<close>

theorem failure_keeps_earlier_and_later_fields:
  assumes mt: "mime_ParseMediaType L (Header_Get (Header r) ''Content-Type'') = Inr mt"
    and js: "jsonStage r mt v = (None, PtrToStruct fs sv, tr)"
    and dist: "distinct (map Name fs)"
    and i: "i < length fs"
    and pre: "fst (bindFields L r (take i fs) sv) = None"
    and fail: "fst (bindField L r (fs ! i) (snd (bindFields L r (take i fs) sv))) = Some e"
  shows "(mt \<noteq> ''application/json'' \<longrightarrow> v = PtrToStruct fs sv) \<and>
         (\<exists>sv'. Unmarshal L r v = (Some e, PtrToStruct fs sv', tr @ [ParseMultipartForm, BodyClose]) \<and>
           (\<forall>j. i < j \<and> j < length fs \<longrightarrow> sv' (Name (fs ! j)) = sv (Name (fs ! j))) \<and>
           (\<forall>j. j < i \<longrightarrow>
                sv' (Name (fs ! j)) = snd (bindFields L r (take (Suc j) fs) sv) (Name (fs ! j))))"
proof -
  have caller: "mt \<noteq> ''application/json'' \<longrightarrow> v = PtrToStruct fs sv"
    using js by (simp add: jsonStage_def split: if_splits)
  define sv_i where "sv_i = snd (bindFields L r (take i fs) sv)"
  define sv' where "sv' = snd (bindField L r (fs ! i) sv_i)"
  have fs: "fs = take i fs @ fs ! i # drop (Suc i) fs"
    using i by (simp add: id_take_nth_drop)
  have "bindFields L r (fs ! i # drop (Suc i) fs) sv_i = (Some e, sv')"
    unfolding sv_i_def sv'_def using fail by (rule bindFields_stop)
  then have "bindFields L r (take i fs @ fs ! i # drop (Suc i) fs) sv = (Some e, sv')"
    using bindFields_append_None [OF pre] by (simp only: sv_i_def)
  with fs have run: "bindFields L r fs sv = (Some e, sv')"
    by simp
  have U: "Unmarshal L r v = (Some e, PtrToStruct fs sv', tr @ [ParseMultipartForm, BodyClose])"
    using Unmarshal_PtrToStruct [OF mt js] run by simp
  have later: "sv' (Name (fs ! j)) = sv (Name (fs ! j))" if "i < j" "j < length fs" for j
  proof -
    have ne: "Name (fs ! j) \<noteq> Name (fs ! i)"
      using distinct_Name_nth [OF dist, of j i] that i by auto
    have "Name (fs ! j) \<notin> set (map Name (take i fs))"
    proof
      assume "Name (fs ! j) \<in> set (map Name (take i fs))"
      then obtain k where k: "k < i" "Name (fs ! k) = Name (fs ! j)"
        using i by (auto simp: in_set_conv_nth)
      then have "k = j"
        using distinct_Name_nth [OF dist, of k j] that i by auto
      with k that show False by simp
    qed
    then have "sv_i (Name (fs ! j)) = sv (Name (fs ! j))"
      unfolding sv_i_def by (rule bindFields_frame)
    then show ?thesis
      using bindField_frame [OF ne, of L r sv_i] by (simp add: sv'_def)
  qed
  have earlier: "sv' (Name (fs ! j)) = snd (bindFields L r (take (Suc j) fs) sv) (Name (fs ! j))"
    if "j < i" for j
  proof -
    let ?rest = "drop (Suc j) (take i fs)"
    have ok: "fst (bindFields L r (take (Suc j) fs) sv) = None"
      using pre i that by (rule prefix_ok)
    have "bindFields L r (take (Suc j) fs @ ?rest) sv =
            bindFields L r ?rest (snd (bindFields L r (take (Suc j) fs) sv))"
      using ok by (rule bindFields_append_None)
    moreover have "take (Suc j) fs @ ?rest = take i fs"
      using take_Suc_split [of j i fs] that i by simp
    ultimately have sv_i: "sv_i = snd (bindFields L r ?rest (snd (bindFields L r (take (Suc j) fs) sv)))"
      by (simp only: sv_i_def)
    have ne: "Name (fs ! j) \<noteq> Name (fs ! i)"
      using distinct_Name_nth [OF dist, of j i] that i by auto
    have "Name (fs ! j) \<notin> set (map Name ?rest)"
      using dist i that by (rule rest_names)
    then have "sv_i (Name (fs ! j)) = snd (bindFields L r (take (Suc j) fs) sv) (Name (fs ! j))"
      unfolding sv_i by (rule bindFields_frame)
    then show ?thesis
      using bindField_frame [OF ne, of L r sv_i] by (simp add: sv'_def)
  qed
  show ?thesis
    using caller U later earlier by blast
qed

text \<open>The request \<^verbatim>\<open>a=1&b=hi&c=300&d=z\<close> against the example struct: the bind fails at
  \<open>C\<close> (index 2); \<open>D\<close> is untouched, \<open>A\<close> and \<open>B\<close> keep what was bound.\<close>

theorem failure_keeps_earlier_and_later_fields_witness:
  "mime_ParseMediaType exLib (Header_Get (Header exRange) ''Content-Type'') = Inr urlencoded \<and>
   jsonStage exRange urlencoded (PtrToStruct exFields exZero) = (None, PtrToStruct exFields exZero, []) \<and>
   distinct (map Name exFields) \<and>
   fst (bindFields exLib exRange (take 2 exFields) exZero) = None \<and>
   fst (bindField exLib exRange (exFields ! 2) (snd (bindFields exLib exRange (take 2 exFields) exZero)))
     = Some (NumError ''ParseInt'' ''300'' ErrRange) \<and>
   (\<exists>sv'. Unmarshal exLib exRange (PtrToStruct exFields exZero) =
            (Some (NumError ''ParseInt'' ''300'' ErrRange), PtrToStruct exFields sv',
             [ParseMultipartForm, BodyClose]) \<and>
          sv' ''D'' = exZero ''D'' \<and> sv' ''A'' = VInt 1 \<and> sv' ''B'' = VPtr (VString ''hi''))"
proof -
  have h1: "mime_ParseMediaType exLib (Header_Get (Header exRange) ''Content-Type'') = Inr urlencoded"
    by (simp add: unmarshal_defs example_defs)
  have h2: "jsonStage exRange urlencoded (PtrToStruct exFields exZero) = (None, PtrToStruct exFields exZero, [])"
    by (simp add: unmarshal_defs example_defs)
  have h3: "distinct (map Name exFields)"
    by (simp add: example_defs)
  have h4: "(2::nat) < length exFields"
    by (simp add: example_defs)
  have h5: "fst (bindFields exLib exRange (take 2 exFields) exZero) = None"
    by (simp add: field_defs strconv_defs example_defs)
  have h6: "fst (bindField exLib exRange (exFields ! 2) (snd (bindFields exLib exRange (take 2 exFields) exZero)))
     = Some (NumError ''ParseInt'' ''300'' ErrRange)"
    by (simp add: field_defs strconv_defs example_defs)
  from failure_keeps_earlier_and_later_fields [OF h1 h2 h3 h4 h5 h6]
  obtain sv' where U: "Unmarshal exLib exRange (PtrToStruct exFields exZero) =
        (Some (NumError ''ParseInt'' ''300'' ErrRange), PtrToStruct exFields sv', [] @ [ParseMultipartForm, BodyClose])"
    and later: "\<forall>j. 2 < j \<and> j < length exFields \<longrightarrow> sv' (Name (exFields ! j)) = exZero (Name (exFields ! j))"
    and earlier: "\<forall>j. j < 2 \<longrightarrow> sv' (Name (exFields ! j)) = snd (bindFields exLib exRange (take (Suc j) exFields) exZero) (Name (exFields ! j))"
    by blast
  from later have "3 < length exFields \<longrightarrow> sv' (Name (exFields ! 3)) = exZero (Name (exFields ! 3))"
    by simp
  then have d: "sv' ''D'' = exZero ''D''"
    by (simp add: example_defs)
  from earlier have "sv' (Name (exFields ! 0)) = snd (bindFields exLib exRange (take (Suc 0) exFields) exZero) (Name (exFields ! 0))"
    by simp
  then have a: "sv' ''A'' = VInt 1"
    by (simp add: field_defs strconv_defs example_defs)
  from earlier have "sv' (Name (exFields ! 1)) = snd (bindFields exLib exRange (take (Suc 1) exFields) exZero) (Name (exFields ! 1))"
    by simp
  then have b: "sv' ''B'' = VPtr (VString ''hi'')"
    by (simp add: field_defs strconv_defs example_defs)
  show ?thesis
    using h1 h2 h3 h5 h6 U d a b by simp
qed

section \<open>Pointer fields\<close>

text \<open>Once the pointee of a pointer field is allocated, every decoder writes through
  the pointer: the field stays a non-nil pointer.\<close>

lemma Value_Set_pointer:
  "vindirect valf \<Longrightarrow> \<exists>x. sv (vname valf) = VPtr x \<Longrightarrow>
     \<exists>x. snd (Value_Set valf y sv) (vname valf) = VPtr x"
  by (simp add: Value_Set_def)

lemma decodeFormValue_pointer:
  assumes "vindirect valf" "\<exists>x. sv (vname valf) = VPtr x"
  shows "\<exists>x. snd (decodeFormValue L valf kind f formValue sv) (vname valf) = VPtr x"
  using assms
  by (cases kind)
     (auto simp: decodeFormValue_def decodeBool_def decodeInt_def decodeUint_def
        decodeFloat_def decodeStruct_def Let_def Value_Set_def
        split: sum.splits prod.splits option.splits)

lemma decodeMultipart_pointer:
  assumes "vindirect valf" "\<exists>x. sv (vname valf) = VPtr x"
  shows "\<exists>x. snd (decodeMultipart L r tag valf kind tagOptions sv) (vname valf) = VPtr x"
  using assms
  by (auto simp: decodeMultipart_def decodeMultipartFile_def Let_def Value_Set_def
        Value_SetImage_def split: sum.splits option.splits)

lemma bindField_no_source:
  assumes "parseTag (Tag_Get (Tag f) ''form'') = (tag, opts)" "tag \<noteq> []" "tag \<noteq> ''-''"
    and "Form r tag = []" "fileParts r tag = []"
    and "kind_of (Type f) = KPtr \<longrightarrow> exported f"
  shows "bindField L r f sv =
           (if required opts then Some (missingRequired tag) else None,
            if kind_of (Type f) = KPtr then sv(Name f := VPtr (zero (Elem (Type f)))) else sv)"
  using assms
  by (auto simp: bindField_def decodeMultipart_def fileParts_def Value_Set_def FieldByName_def
        Indirect_def Let_def split: option.splits)

lemma bindField_no_source_all:
  assumes tag: "parseTag (Tag_Get (Tag f) ''form'') = (tag, opts)" "tag \<noteq> []" "tag \<noteq> ''-''"
    and novalue: "Form r tag = []" and nofile: "fileParts r tag = []"
  shows "bindField L r f sv =
           (if kind_of (Type f) = KPtr \<and> \<not> exported f
            then (Some (Panic ''reflect: value obtained using unexported field''), sv)
            else (if required opts then Some (missingRequired tag) else None,
                  if kind_of (Type f) = KPtr then sv(Name f := VPtr (zero (Elem (Type f))))
                  else sv))"
proof (cases "kind_of (Type f) = KPtr \<and> \<not> exported f")
  case True
  then show ?thesis
    using bindField_unexported_pointer [OF tag, of L r sv] by simp
next
  case False
  then have "kind_of (Type f) = KPtr \<longrightarrow> exported f"
    by simp
  from bindField_no_source [OF tag novalue nofile this, of L sv] False show ?thesis
    by auto
qed

text \<open>
  Claim C1 says that the pointee of a pointer field is allocated only when a form
  value or a file part is written into it, and that the field stays nil otherwise.
  The loop allocates before it looks at the request: with the request \<^verbatim>\<open>a=1\<close>, which
  has neither a form value nor a file part for the key \<^verbatim>\<open>b\<close> of the field
  \<^verbatim>\<open>B *string `form:"b"`\<close> (not required), the call succeeds and \<open>B\<close>, nil before,
  points at an empty string afterwards.
\<close>

theorem pointer_allocated_without_value:
  "Form exOnlyA ''b'' = [] \<and> fileParts exOnlyA ''b'' = [] \<and> exZero ''B'' = VNil \<and>
   Unmarshal exLib exOnlyA (PtrToStruct exFields exZero) =
     (None, PtrToStruct exFields (exZero(''A'' := VInt 1, ''B'' := VPtr (VString []))),
      [ParseMultipartForm, BodyClose])"
  by (simp add: unmarshal_defs field_defs strconv_defs example_defs)

text \<open>
  Claim C1, as amended.  For every exported field of type pointer-to-X whose tag is a
  key other than the empty string and \<^verbatim>\<open>-\<close>, the pass of the loop for that field
  allocates the pointee before it consults the request: whatever the request holds,
  the field is a non-nil pointer afterwards; and when the request holds neither a form
  value nor a file part for the key and the field is not required, the pass succeeds
  and leaves the field pointing at a fresh zero X.
\<close>

theorem pointer_field_allocated_when_reached:
  assumes tag: "parseTag (Tag_Get (Tag f) ''form'') = (tag, opts)" "tag \<noteq> []" "tag \<noteq> ''-''"
    and ptr: "Type f = TPtr t" and exp: "exported f"
  shows "(\<exists>x. snd (bindField L r f sv) (Name f) = VPtr x) \<and>
         (Form r tag = [] \<and> fileParts r tag = [] \<and> \<not> required opts \<longrightarrow>
            bindField L r f sv = (None, sv(Name f := VPtr (zero t))))"
proof
  let ?valf = "Indirect (FieldByName f)"
  let ?sv = "sv(Name f := VPtr (zero t))"
  have valf: "vindirect ?valf" "vname ?valf = Name f"
    by (simp_all add: Indirect_def FieldByName_def)
  have allocated: "\<exists>x. ?sv (vname ?valf) = VPtr x"
    by (simp add: valf)
  have "bindField L r f sv =
          (if length (Form r tag) > 1 then (Some (GoError ''goform: arrays not supported yet''), ?sv)
           else if length (Form r tag) = 0 then decodeMultipart L r tag ?valf (kind_of t) opts ?sv
           else decodeFormValue L ?valf (kind_of t) f (Form r tag ! 0) ?sv)"
    using tag ptr exp by (simp add: bindField_def Value_Set_def FieldByName_def Let_def)
  moreover have "\<exists>x. snd (decodeMultipart L r tag ?valf (kind_of t) opts ?sv) (vname ?valf) = VPtr x"
    using valf(1) allocated by (rule decodeMultipart_pointer)
  moreover have "\<exists>x. snd (decodeFormValue L ?valf (kind_of t) f (Form r tag ! 0) ?sv) (vname ?valf) = VPtr x"
    using valf(1) allocated by (rule decodeFormValue_pointer)
  ultimately show "\<exists>x. snd (bindField L r f sv) (Name f) = VPtr x"
    by (simp add: valf)
next
  show "Form r tag = [] \<and> fileParts r tag = [] \<and> \<not> required opts \<longrightarrow>
          bindField L r f sv = (None, sv(Name f := VPtr (zero t)))"
    using bindField_no_source [OF tag, of r L sv] ptr exp by simp
qed

text \<open>The field \<open>B\<close> of the example struct: allocated with the request
  \<^verbatim>\<open>a=1&b=hi&c=300&d=z\<close>, and with the request \<^verbatim>\<open>a=1\<close>, which has nothing for it.\<close>

theorem pointer_field_allocated_when_reached_witness:
  "parseTag (Tag_Get (Tag (formField ''B'' (TPtr TString) ''b'')) ''form'')
     = (''b'', \<lparr>base64 = False, required = False\<rparr>) \<and>
   Type (formField ''B'' (TPtr TString) ''b'') = TPtr TString \<and>
   exported (formField ''B'' (TPtr TString) ''b'') \<and>
   Form exOnlyA ''b'' = [] \<and> fileParts exOnlyA ''b'' = [] \<and>
   (\<exists>x. snd (bindField exLib exRange (formField ''B'' (TPtr TString) ''b'') exZero) ''B'' = VPtr x) \<and>
   bindField exLib exOnlyA (formField ''B'' (TPtr TString) ''b'') exZero
     = (None, exZero(''B'' := VPtr (VString [])))"
  using
    pointer_field_allocated_when_reached [where f = "formField ''B'' (TPtr TString) ''b''"
      and tag = "''b''" and opts = "\<lparr>base64 = False, required = False\<rparr>" and t = TString
      and L = exLib and r = exRange and sv = exZero]
    pointer_field_allocated_when_reached [where f = "formField ''B'' (TPtr TString) ''b''"
      and tag = "''b''" and opts = "\<lparr>base64 = False, required = False\<rparr>" and t = TString
      and L = exLib and r = exOnlyA and sv = exZero]
  by (simp add: parseTag_def Tag_Get_def Tag_Lookup_def example_defs)

section \<open>A key with no form value\<close>

text \<open>
  Claim C4 says that a field that is not required and has no form value is left at
  its zero value.  For a pointer field it is not: with the multipart request that has
  no form value and no file part under \<^verbatim>\<open>b\<close>, the field \<^verbatim>\<open>B *string `form:"b"`\<close>, whose
  zero value is nil, points at an empty string after the call.
\<close>

theorem unrequired_pointer_not_left_zero:
  "Form exMultipart ''b'' = [] \<and> fileParts exMultipart ''b'' = [] \<and>
   \<not> required (snd (parseTag ''b'')) \<and>
   zero (TPtr TString) = VNil \<and> exZero ''B'' = VNil \<and>
   Unmarshal exLib exMultipart (PtrToStruct exFields exZero) =
     (None, PtrToStruct exFields (exZero(''A'' := VInt 1, ''B'' := VPtr (VString []))),
      [ParseMultipartForm, BodyClose])"
  by (simp add: unmarshal_defs field_defs strconv_defs example_defs)

text \<open>
  Claim C4, as amended.  Let \<open>f\<close> be a declared field whose tag is a key other than the
  empty string and \<^verbatim>\<open>-\<close>, and let the request hold no form value and no file part
  under that key.
  \<^item> When \<open>f\<close> is a pointer field that is not exported, reflect panics as the loop
    allocates its pointee, whether the field is required or not, and the struct is
    left as it was.
  \<^item> Otherwise, if the tag has the \<^verbatim>\<open>required\<close> option, the pass fails, and so does the
    loop, with \<^verbatim>\<open>goform: missing required field [key]\<close>; if it has not, the pass
    succeeds and the loop goes on with the next field, a field that is not a pointer
    being left as it was and a pointer field being left pointing at a fresh zero
    pointee.
\<close>

theorem missing_value_required_or_skipped:
  assumes tag: "parseTag (Tag_Get (Tag f) ''form'') = (tag, opts)" "tag \<noteq> []" "tag \<noteq> ''-''"
    and novalue: "Form r tag = []" and nofile: "fileParts r tag = []"
  shows "(kind_of (Type f) = KPtr \<and> \<not> exported f \<longrightarrow>
            bindField L r f sv =
              (Some (Panic ''reflect: value obtained using unexported field''), sv)) \<and>
         ((kind_of (Type f) = KPtr \<longrightarrow> exported f) \<longrightarrow>
            (required opts \<longrightarrow>
               fst (bindField L r f sv) = Some (GoError (''goform: missing required field ['' @ tag @ '']'')) \<and>
               fst (bindFields L r (f # rest) sv) = Some (GoError (''goform: missing required field ['' @ tag @ '']''))) \<and>
            (\<not> required opts \<longrightarrow>
               bindField L r f sv =
                 (None, if kind_of (Type f) = KPtr then sv(Name f := VPtr (zero (Elem (Type f)))) else sv) \<and>
               bindFields L r (f # rest) sv =
                 bindFields L r rest
                   (if kind_of (Type f) = KPtr then sv(Name f := VPtr (zero (Elem (Type f)))) else sv)))"
  using bindField_no_source_all [OF tag novalue nofile, of L sv]
  by (auto simp: missingRequired_def)

text \<open>The repository's test of a missing required field, the field \<open>D\<close> of the
  example struct with the request \<^verbatim>\<open>a=1\<close>, and the unexported pointer field
  \<^verbatim>\<open>p *string `form:"p,required"`\<close> with the same request.\<close>

theorem missing_value_required_or_skipped_witness:
  "parseTag (Tag_Get (Tag exRequired) ''form'') = (''something'', \<lparr>base64 = False, required = True\<rparr>) \<and>
   Form exJSON ''something'' = [] \<and> fileParts exJSON ''something'' = [] \<and>
   fst (bindField exLib exJSON exRequired (zeroStruct [exRequired]))
     = Some (GoError ''goform: missing required field [something]'') \<and>
   parseTag (Tag_Get (Tag (exFields ! 3)) ''form'') = (''d'', \<lparr>base64 = False, required = False\<rparr>) \<and>
   Form exOnlyA ''d'' = [] \<and> fileParts exOnlyA ''d'' = [] \<and>
   bindField exLib exOnlyA (exFields ! 3) exZero = (None, exZero) \<and>
   parseTag (Tag_Get (Tag exHiddenPointer) ''form'') = (''p'', \<lparr>base64 = False, required = True\<rparr>) \<and>
   Form exOnlyA ''p'' = [] \<and> fileParts exOnlyA ''p'' = [] \<and>
   bindField exLib exOnlyA exHiddenPointer exZero
     = (Some (Panic ''reflect: value obtained using unexported field''), exZero)"
  using
    missing_value_required_or_skipped [where f = exRequired and tag = "''something''"
      and opts = "\<lparr>base64 = False, required = True\<rparr>" and L = exLib and r = exJSON
      and sv = "zeroStruct [exRequired]" and rest = "[]"]
    missing_value_required_or_skipped [where f = "exFields ! 3" and tag = "''d''"
      and opts = "\<lparr>base64 = False, required = False\<rparr>" and L = exLib and r = exOnlyA
      and sv = exZero and rest = "[]"]
    missing_value_required_or_skipped [where f = exHiddenPointer and tag = "''p''"
      and opts = "\<lparr>base64 = False, required = True\<rparr>" and L = exLib and r = exOnlyA
      and sv = exZero and rest = "[]"]
  by (simp add: parseTag_def Tag_Get_def Tag_Lookup_def example_defs)

section \<open>Destination kinds without a decoder\<close>

text \<open>
  A form value for a field whose effective kind has no case in \<^verbatim>\<open>decodeFormValue\<close>, or
  for a struct other than \<^verbatim>\<open>time.Time\<close>, is refused with
  \<^verbatim>\<open>goform: invalid destination type\<close>.  The case for slices has no such branch: a
  slice that is not a byte slice is passed over without an error.
\<close>

lemma decodeFormValue_other_kinds:
  assumes "kind \<in> {KUintptr, KComplex64, KComplex128, KArray, KChan, KFunc, KInterface, KMap,
                    KPtr, KUnsafePointer}"
  shows "decodeFormValue L valf kind f formValue sv =
           (Some (GoError ''goform: invalid destination type''), sv)"
  using assms by (auto simp: decodeFormValue_def)

lemma decodeFormValue_other_struct:
  assumes "vtype valf \<noteq> TTime"
  shows "decodeFormValue L valf KStruct f formValue sv =
           (Some (GoError ''goform: invalid destination type''), sv)"
  using assms by (simp add: decodeFormValue_def decodeStruct_def)

lemma decodeFormValue_other_slice:
  assumes "vtype valf \<noteq> TSlice TUint8"
  shows "decodeFormValue L valf KSlice f formValue sv = (None, sv)"
  using assms by (simp add: decodeFormValue_def)

text \<open>
  Claim C2 says that a form value for any unsupported destination kind, slices other
  than byte slices included, fails with the unsupported-type error.  With the request
  \<^verbatim>\<open>tags=x\<close> and the destination \<^verbatim>\<open>struct { Tags []string `form:"tags"` }\<close>, the call
  returns no error and leaves the struct as it was.
\<close>

theorem non_byte_slice_not_rejected:
  "Form exTags ''tags'' = [''x''] \<and>
   Unmarshal exLib exTags (PtrToStruct [exTagsField] (zeroStruct [exTagsField])) =
     (None, PtrToStruct [exTagsField] (zeroStruct [exTagsField]), [ParseMultipartForm, BodyClose])"
  by (simp add: unmarshal_defs field_defs example_defs)

section \<open>File parts into byte slices\<close>

text \<open>
  Claim C7.  Let \<open>f\<close> be an exported field of type \<^verbatim>\<open>[]byte\<close> (or pointer to it) whose
  tag is a key other than the empty string and \<^verbatim>\<open>-\<close>, and let the request hold no form
  value under that key and a file part that opens.  Without the \<^verbatim>\<open>base64\<close> option, and
  when the part reads to its end, the field is assigned the bytes of the part.  With
  the \<^verbatim>\<open>base64\<close> option, and when the standard-alphabet base64 decoder accepts the
  content, the field is assigned the decoded bytes.
\<close>

theorem file_part_bytes:
  assumes tag: "parseTag (Tag_Get (Tag f) ''form'') = (tag, opts)" "tag \<noteq> []" "tag \<noteq> ''-''"
    and novalue: "Form r tag = []"
    and part: "fileParts r tag = hdr # others"
    and opened: "Open hdr = Inr data"
    and ty: "Type f = TSlice TUint8 \<or> Type f = TPtr (TSlice TUint8)"
    and exp: "exported f"
  shows "(\<not> base64 opts \<and> readError data = None \<longrightarrow>
            bindField L r f sv =
              (None, sv(Name f := (if Type f = TSlice TUint8 then VBytes (content data)
                                   else VPtr (VBytes (content data)))))) \<and>
         (base64 opts \<and> base64_ReadAll L data = Inr decoded \<longrightarrow>
            bindField L r f sv =
              (None, sv(Name f := (if Type f = TSlice TUint8 then VBytes decoded
                                   else VPtr (VBytes decoded)))))"
proof -
  from part obtain File where mf: "MultipartForm r = Some File" "File tag = hdr # others"
    by (auto simp: fileParts_def split: option.splits)
  from ty show ?thesis
  proof
    assume "Type f = TSlice TUint8"
    then show ?thesis
      using tag novalue mf opened exp
      by (simp add: bindField_def decodeMultipart_def decodeMultipartFile_def ReadAll_def
            Value_Set_def FieldByName_def Let_def)
  next
    assume "Type f = TPtr (TSlice TUint8)"
    then show ?thesis
      using tag novalue mf opened exp
      by (simp add: bindField_def decodeMultipart_def decodeMultipartFile_def ReadAll_def
            Value_Set_def FieldByName_def Indirect_def Let_def)
  qed
qed

text \<open>The upload \<^verbatim>\<open>QUJDRA==\<close> into \<^verbatim>\<open>Up []byte `form:"up"`\<close> and into
  \<^verbatim>\<open>Up []byte `form:"up,base64"`\<close>.\<close>

theorem file_part_bytes_witness:
  "parseTag (Tag_Get (Tag exUpField) ''form'') = (''up'', \<lparr>base64 = False, required = False\<rparr>) \<and>
   parseTag (Tag_Get (Tag exUp64Field) ''form'') = (''up'', \<lparr>base64 = True, required = False\<rparr>) \<and>
   Form exMultipart ''up'' = [] \<and> fileParts exMultipart ''up'' = [exUpload] \<and>
   Open exUpload = Inr \<lparr>content = ''QUJDRA=='', readError = None\<rparr> \<and>
   base64_ReadAll exLib \<lparr>content = ''QUJDRA=='', readError = None\<rparr> = Inr ''ABCD'' \<and>
   bindField exLib exMultipart exUpField (zeroStruct [exUpField])
     = (None, (zeroStruct [exUpField])(''Up'' := VBytes ''QUJDRA=='')) \<and>
   bindField exLib exMultipart exUp64Field (zeroStruct [exUp64Field])
     = (None, (zeroStruct [exUp64Field])(''Up'' := VBytes ''ABCD''))"
  using
    file_part_bytes [where f = exUpField and tag = "''up''"
      and opts = "\<lparr>base64 = False, required = False\<rparr>" and r = exMultipart and hdr = exUpload
      and others = "[]" and data = "\<lparr>content = ''QUJDRA=='', readError = None\<rparr>" and L = exLib
      and sv = "zeroStruct [exUpField]" and decoded = "''ABCD''"]
    file_part_bytes [where f = exUp64Field and tag = "''up''"
      and opts = "\<lparr>base64 = True, required = False\<rparr>" and r = exMultipart and hdr = exUpload
      and others = "[]" and data = "\<lparr>content = ''QUJDRA=='', readError = None\<rparr>" and L = exLib
      and sv = "zeroStruct [exUp64Field]" and decoded = "''ABCD''"]
  by (simp add: parseTag_def Tag_Get_def Tag_Lookup_def char_of_def bit_0 example_defs)

section \<open>The Content-Type header and the pointer check\<close>

text \<open>
  Claim C9.  When the request has no Content-Type header, or an empty one,
  \<^verbatim>\<open>Unmarshal\<close> returns the error of \<^verbatim>\<open>mime.ParseMediaType\<close> at once: the destination is
  as the caller passed it, and neither the JSON decoder nor \<^verbatim>\<open>r.ParseMultipartForm\<close>
  has been called (nor is the closing of the body deferred yet).
\<close>

theorem empty_content_type_fails_first:
  assumes "Header r ''Content-Type'' = [] \<or> (\<exists>vs. Header r ''Content-Type'' = [] # vs)"
  shows "Unmarshal L r v = (Some (GoError ''mime: no media type''), v, [])"
  using assms by (auto simp: Unmarshal_def mime_ParseMediaType_def Header_Get_def)

text \<open>A GET request with the query string \<^verbatim>\<open>a=1&d=z\<close>: bindable data, but no
  Content-Type.\<close>

theorem empty_content_type_fails_first_witness:
  "Header exQueryGet ''Content-Type'' = [] \<and> Form exQueryGet ''a'' = [''1''] \<and>
   Unmarshal exLib exQueryGet (PtrToStruct exFields exZero)
     = (Some (GoError ''mime: no media type''), PtrToStruct exFields exZero, [])"
  using empty_content_type_fails_first [of exQueryGet exLib "PtrToStruct exFields exZero"]
  by (simp add: exQueryGet_def)

text \<open>
  Claim C10.  Let the media type parse, and let the destination be a value that is
  not a pointer.  When the media type is not \<^verbatim>\<open>application/json\<close>, \<^verbatim>\<open>Unmarshal\<close> returns
  \<^verbatim>\<open>goform: v must be a pointer\<close> before \<^verbatim>\<open>r.ParseMultipartForm\<close> and the loop.  When it
  is \<^verbatim>\<open>application/json\<close>, the JSON decoder runs first and its error is what
  \<^verbatim>\<open>Unmarshal\<close> returns: the error of reading the body, or
  \<^verbatim>\<open>*json.InvalidUnmarshalError\<close>.  (The nil interface is not such a value: it has no
  type, and \<open>reflectStage\<close> shows the panic of reflect there.)
\<close>

theorem non_pointer_destination:
  assumes "mime_ParseMediaType L (Header_Get (Header r) ''Content-Type'') = Inr mediaType"
  shows "(mediaType \<noteq> ''application/json'' \<longrightarrow>
            Unmarshal L r NonPointer =
              (Some (GoError ''goform: v must be a pointer''), NonPointer, [BodyClose])) \<and>
         (mediaType = ''application/json'' \<longrightarrow>
            Unmarshal L r NonPointer =
              (Some (case Body r of Inl err \<Rightarrow> err | Inr u \<Rightarrow> InvalidUnmarshalError),
               NonPointer, [JSONDecode, BodyClose]))"
  using assms
  by (auto simp: Unmarshal_def jsonStage_def json_Decode_def reflectStage_def split: sum.splits)

text \<open>A URL-encoded request and a JSON request, each with a destination passed by
  value.\<close>

theorem non_pointer_destination_witness:
  "mime_ParseMediaType exLib (Header_Get (Header exOnlyA) ''Content-Type'') = Inr urlencoded \<and>
   Unmarshal exLib exOnlyA NonPointer
     = (Some (GoError ''goform: v must be a pointer''), NonPointer, [BodyClose]) \<and>
   mime_ParseMediaType exLib (Header_Get (Header exJSON) ''Content-Type'') = Inr ''application/json'' \<and>
   Unmarshal exLib exJSON NonPointer = (Some InvalidUnmarshalError, NonPointer, [JSONDecode, BodyClose])"
  using non_pointer_destination [of exLib exOnlyA urlencoded]
    non_pointer_destination [of exLib exJSON "''application/json''"]
  by (simp add: mime_ParseMediaType_def Header_Get_def example_defs)

section \<open>What the integer parsers return\<close>

text \<open>
  The digit loop never lets the accumulator pass \<open>maxVal\<close>, and when it fails it
  returns 0 with a syntax error or \<open>maxVal\<close> with a range error.  So a value that
  \<^verbatim>\<open>ParseUint\<close> or \<^verbatim>\<open>ParseInt\<close> returns without an error lies in the range of the
  requested width.
\<close>

lemma ParseUint_loop_ok_le:
  "ParseUint_loop b b0 cutoff maxVal s n us = ((x, None), us') \<Longrightarrow> n \<le> maxVal \<Longrightarrow> x \<le> maxVal"
proof (induction s arbitrary: n us)
  case Nil
  then show ?case by simp
next
  case (Cons c cs)
  show ?case
  proof (cases "c = CHR ''_'' \<and> b0")
    case True
    with Cons.prems have "ParseUint_loop b b0 cutoff maxVal cs n True = ((x, None), us')"
      by simp
    then show ?thesis using Cons.prems(2) by (rule Cons.IH)
  next
    case False
    with Cons.prems(1) obtain d where d: "digitVal c = Some d" "\<not> d \<ge> b" "\<not> n \<ge> cutoff"
      and n1: "\<not> ((n * b) mod 2 ^ 64 + d) mod 2 ^ 64 > maxVal"
      and rest: "ParseUint_loop b b0 cutoff maxVal cs (((n * b) mod 2 ^ 64 + d) mod 2 ^ 64) us = ((x, None), us')"
      by (auto simp: Let_def split: option.splits if_splits)
    from n1 have "((n * b) mod 2 ^ 64 + d) mod 2 ^ 64 \<le> maxVal"
      by (rule leI)
    with rest show ?thesis
      by (rule Cons.IH)
  qed
qed

lemma ParseUint_loop_error:
  "ParseUint_loop b b0 cutoff maxVal s n us = ((x, Some e), us') \<Longrightarrow>
     (e = ErrSyntax \<and> x = 0) \<or> (e = ErrRange \<and> x = maxVal)"
proof (induction s arbitrary: n us)
  case Nil
  then show ?case by simp
next
  case (Cons c cs)
  then show ?case
    by (auto simp: Let_def split: option.splits if_splits)
qed


lemma maxVal_bitsOf:
  assumes "w \<in> {0, 8, 16, 32, 64}"
  shows "(2 ^ nat (if w = 0 then IntSize else w) mod 2 ^ 64 + maxUint64) mod 2 ^ 64
           = 2 ^ bitsOf w - (1::nat)"
  using assms by (auto simp: IntSize_def maxUint64_def bitsOf_def)

lemma ParseUint_cases:
  assumes "ParseUint s b w = (n, err)" and w: "w \<in> {0, 8, 16, 32, 64}"
  shows "(err = None \<and> n \<le> 2 ^ bitsOf w - 1) \<or>
         (\<exists>e. err = Some e \<and> (numerr_of e = ErrRange \<longrightarrow> n = 2 ^ bitsOf w - 1))"
proof (cases "length s = 0")
  case True
  with assms(1) show ?thesis
    by (auto simp: ParseUint_def syntaxError_def numerr_of_def)
next
  case False
  note nonempty = this
  show ?thesis
  proof (cases "ParseUint_base s b")
    case None
    with assms(1) nonempty show ?thesis
      by (auto simp: ParseUint_def baseError_def numerr_of_def)
  next
    case (Some p)
    obtain b' s' where p: "p = (b', s')" by (cases p)
    define mv :: nat where "mv = 2 ^ bitsOf w - 1"
    obtain res us where loop:
      "ParseUint_loop (nat b') (b = 0) (maxUint64 div nat b' + 1) mv s' 0 False = (res, us)"
      by (cases "ParseUint_loop (nat b') (b = 0) (maxUint64 div nat b' + 1) mv s' 0 False")
    obtain x e where res: "res = (x, e)" by (cases res)
    have valid: "\<not> (w \<noteq> 0 \<and> (w < 0 \<or> w > 64))"
      using w by auto
    have unfolded: "ParseUint s b w =
        (case ((x, e), us) of
           ((n, Some e), underscores) \<Rightarrow> (n, Some (NumError fnParseUint s e))
         | ((n, None), underscores) \<Rightarrow>
             if underscores \<and> \<not> underscoreOK s
             then (0, Some (syntaxError fnParseUint s))
             else (n, None))"
      using nonempty Some p valid loop res maxVal_bitsOf [OF w]
      by (simp only: ParseUint_def Let_def mv_def option.case prod.case if_False)
    show ?thesis
    proof (cases e)
      case None
      with loop res have "x \<le> mv"
        using ParseUint_loop_ok_le [of "nat b'" "b = 0" "maxUint64 div nat b' + 1" mv s' 0 False x us]
        by simp
      with None unfolded assms(1) show ?thesis
        by (auto simp: mv_def syntaxError_def numerr_of_def split: if_splits)
    next
      case (Some ne)
      with loop res have "(ne = ErrSyntax \<and> x = 0) \<or> (ne = ErrRange \<and> x = mv)"
        using ParseUint_loop_error [of "nat b'" "b = 0" "maxUint64 div nat b' + 1" mv s' 0 False x ne us]
        by simp
      with Some unfolded assms(1) show ?thesis
        by (auto simp: mv_def numerr_of_def)
    qed
  qed
qed

lemma ParseUint_ok_range:
  assumes "ParseUint s b w = (n, None)" and "w \<in> {0, 8, 16, 32, 64}"
  shows "n < 2 ^ bitsOf w"
proof -
  from ParseUint_cases [OF assms] have "n \<le> 2 ^ bitsOf w - 1"
    by simp
  moreover have "(0::nat) < 2 ^ bitsOf w"
    by simp
  ultimately show ?thesis
    by linarith
qed

lemma ParseInt_ok_range:
  assumes ok: "ParseInt s b w = (n, None)" and w: "w \<in> {0, 8, 16, 32, 64}"
  shows "- (2 ^ (bitsOf w - 1)) \<le> n \<and> n < 2 ^ (bitsOf w - 1)"
proof -
  from ok have nonempty: "s \<noteq> []"
    by (auto simp: ParseInt_def)
  define neg where "neg = (s ! 0 = CHR ''-'')"
  define s' where "s' = (if s ! 0 = CHR ''+'' \<or> s ! 0 = CHR ''-'' then drop 1 s else s)"
  obtain un err where pu: "ParseUint s' b w = (un, err)"
    by (cases "ParseUint s' b w")
  define cutoff :: nat where "cutoff = 2 ^ (bitsOf w - 1)"
  have cutoff: "(2 ^ nat ((if w = 0 then IntSize else w) - 1)) mod 2 ^ 64 = cutoff"
    using w by (auto simp: cutoff_def bitsOf_def IntSize_def)
  have unfolded: "ParseInt s b w =
      (if err \<noteq> None \<and> numerr_of (the err) \<noteq> ErrRange
       then (0, Some (NumError fnParseInt s (numerr_of (the err))))
       else if \<not> neg \<and> un \<ge> cutoff
            then (int64_of_uint64 (cutoff - 1), Some (rangeError fnParseInt s))
            else if neg \<and> un > cutoff
            then (neg_int64 (int64_of_uint64 cutoff), Some (rangeError fnParseInt s))
            else (if neg then neg_int64 (int64_of_uint64 un) else int64_of_uint64 un, None))"
    using nonempty pu cutoff by (simp add: ParseInt_def Let_def neg_def s'_def)
  have small: "cutoff \<le> 2 ^ 63"
    using w by (auto simp: cutoff_def bitsOf_def IntSize_def)
  from ok unfolded have checks: "\<not> (err \<noteq> None \<and> numerr_of (the err) \<noteq> ErrRange)"
      "\<not> (\<not> neg \<and> un \<ge> cutoff)" "\<not> (neg \<and> un > cutoff)"
      and n: "n = (if neg then neg_int64 (int64_of_uint64 un) else int64_of_uint64 un)"
    by (auto split: if_splits)
  define C :: int where "C = 2 ^ (bitsOf w - 1)"
  have C: "int cutoff = C" "0 < C" "C \<le> 2 ^ 63"
    using w by (auto simp: C_def cutoff_def bitsOf_def IntSize_def)
  have goal: "- C \<le> n \<and> n < C"
  proof (cases neg)
    case False
    with checks(2) have "un < cutoff" by simp
    then have "int un < C" "int un < 2 ^ 63" "un < 2 ^ 63"
      using C small by linarith+
    with n False C show ?thesis
      by (simp add: int64_of_uint64_def)
  next
    case True
    with checks(3) have le: "un \<le> cutoff" by simp
    then have le': "int un \<le> C"
      using C by linarith
    show ?thesis
    proof (cases "un < 2 ^ 63")
      case True
      have "(0::int) \<le> int un" "(0::int) < 2 ^ 63"
        by simp_all
      then have "int un \<noteq> - (2 ^ 63)"
        by linarith
      with n \<open>neg\<close> True le' C show ?thesis
        by (simp add: int64_of_uint64_def neg_int64_def)
    next
      case False
      with le small have un: "un = 2 ^ 63" and "cutoff = 2 ^ 63" by simp_all
      with C have "C = 2 ^ 63" by simp
      with n \<open>neg\<close> un show ?thesis
        by (simp add: int64_of_uint64_def neg_int64_def)
    qed
  qed
  then show ?thesis
    by (simp add: C_def)
qed

section \<open>The integer decoders\<close>

lemma ParseUint_error_is_NumError:
  "ParseUint s b w = (n, Some e) \<Longrightarrow> \<exists>fn num ne. e = NumError fn num ne"
  by (auto simp: ParseUint_def Let_def syntaxError_def baseError_def bitSizeError_def
        split: if_splits option.splits prod.splits)

lemma ParseInt_error_is_NumError:
  "ParseInt s b w = (n, Some e) \<Longrightarrow> \<exists>fn num ne. e = NumError fn num ne"
  by (auto simp: ParseInt_def Let_def syntaxError_def rangeError_def
        split: if_splits prod.splits)

lemma spec_parseInteger_error:
  "spec_parseInteger signed raw b w = Inl err \<Longrightarrow> isParseError err"
  by (auto simp: spec_parseInteger_def split: if_splits prod.splits option.splits
        dest: ParseUint_error_is_NumError ParseInt_error_is_NumError)

lemma spec_parseInteger_fits:
  assumes "spec_parseInteger signed raw b w = Inr x" "w \<in> {0, 8, 16, 32, 64}"
  shows "fitsWidth signed (bitsOf w) x"
  using assms
  by (auto simp: spec_parseInteger_def split: if_splits prod.splits option.splits
        dest: ParseUint_ok_range ParseInt_ok_range)

lemma spec_decodeInteger_error:
  "spec_decodeInteger signed tag w raw = Inl err \<Longrightarrow> isParseError err"
  by (auto simp: spec_decodeInteger_def split: option.splits prod.splits
        dest: spec_parseInteger_error)

lemma spec_decodeInteger_fits:
  assumes "spec_decodeInteger signed tag w raw = Inr x" "w \<in> {0, 8, 16, 32, 64}"
  shows "fitsWidth signed (bitsOf w) x"
  using assms
  by (auto simp: spec_decodeInteger_def split: option.splits prod.splits
        dest: spec_parseInteger_fits)

lemma decodeInt_spec:
  "decodeInt valf tag w raw sv =
     (case spec_decodeInteger True tag w raw of
        Inl err \<Rightarrow> (Some err, sv)
      | Inr x \<Rightarrow> Value_Set valf x sv)"
  by (simp add: decodeInt_def base_def spec_decodeInteger_def spec_parseInteger_def
        split: option.splits prod.splits)

lemma decodeUint_spec:
  "decodeUint valf tag w raw sv =
     (case spec_decodeInteger False tag w raw of
        Inl err \<Rightarrow> (Some err, sv)
      | Inr x \<Rightarrow> Value_Set valf x sv)"
  by (simp add: decodeUint_def base_def spec_decodeInteger_def spec_parseInteger_def
        split: option.splits prod.splits)

lemma widthOfKind_integer: "kind \<in> set integerKinds \<Longrightarrow> widthOfKind kind \<in> {0, 8, 16, 32, 64}"
  by (auto simp: integerKinds_def widthOfKind_def)

text \<open>
  Claim C8.  For every integer kind (signed or unsigned, of width 0, 8, 16, 32 or 64)
  and every raw value, \<^verbatim>\<open>decodeFormValue\<close> does what the specification's integer
  decoder says: it reads the \<^verbatim>\<open>base\<close> annotation of the field, base 10 when there is
  none; it fails with \<^verbatim>\<open>invalid int base\<close> when the annotation is there and does not
  parse as a base-10 integer; otherwise it parses the raw value with the signedness
  and width of the kind in that base, fails with the parser's error when the value
  does not parse, and assigns the parsed integer when it does.  Every error is a parse
  error, and every integer assigned lies in the range of the width.
\<close>

theorem integer_decoder_follows_base:
  assumes kind: "kind \<in> set integerKinds"
  shows "decodeFormValue L valf kind f raw sv =
           (case spec_decodeInteger (signedKind kind) (Tag f) (widthOfKind kind) raw of
              Inl err \<Rightarrow> (Some err, sv)
            | Inr x \<Rightarrow> Value_Set valf x sv) \<and>
         (\<forall>err. spec_decodeInteger (signedKind kind) (Tag f) (widthOfKind kind) raw = Inl err
                \<longrightarrow> isParseError err) \<and>
         (\<forall>x. spec_decodeInteger (signedKind kind) (Tag f) (widthOfKind kind) raw = Inr x
              \<longrightarrow> fitsWidth (signedKind kind) (bitsOf (widthOfKind kind)) x)"
proof (intro conjI allI impI)
  show "decodeFormValue L valf kind f raw sv =
           (case spec_decodeInteger (signedKind kind) (Tag f) (widthOfKind kind) raw of
              Inl err \<Rightarrow> (Some err, sv)
            | Inr x \<Rightarrow> Value_Set valf x sv)"
    using kind
    by (auto simp: integerKinds_def decodeFormValue_def signedKind_def widthOfKind_def
          decodeInt_spec decodeUint_spec)
next
  fix err
  assume "spec_decodeInteger (signedKind kind) (Tag f) (widthOfKind kind) raw = Inl err"
  then show "isParseError err"
    by (rule spec_decodeInteger_error)
next
  fix x
  assume "spec_decodeInteger (signedKind kind) (Tag f) (widthOfKind kind) raw = Inr x"
  then show "fitsWidth (signedKind kind) (bitsOf (widthOfKind kind)) x"
    using widthOfKind_integer [OF kind] by (rule spec_decodeInteger_fits)
qed

text \<open>The field \<^verbatim>\<open>H int16 `form:"h" base:"16"`\<close> with the raw value \<^verbatim>\<open>-7f\<close>.\<close>

theorem integer_decoder_follows_base_witness:
  "KInt16 \<in> set integerKinds \<and> signedKind KInt16 \<and> widthOfKind KInt16 = 16 \<and>
   Tag_Lookup (Tag exHexField) ''base'' = Some ''16'' \<and>
   spec_decodeInteger True (Tag exHexField) 16 ''-7f'' = Inr (VInt (- 127)) \<and>
   fitsWidth True 16 (VInt (- 127)) \<and>
   decodeFormValue exLib (FieldByName exHexField) KInt16 exHexField ''-7f'' (zeroStruct [exHexField])
     = (None, (zeroStruct [exHexField])(''H'' := VInt (- 127)))"
proof -
  have k: "KInt16 \<in> set integerKinds"
    by (simp add: integerKinds_def)
  have spec: "spec_decodeInteger True (Tag exHexField) 16 ''-7f'' = Inr (VInt (- 127))"
    by (simp add: spec_decodeInteger_def spec_parseInteger_def Tag_Lookup_def exHexField_def
          strconv_defs Let_def)
  from integer_decoder_follows_base [OF k, of exLib "FieldByName exHexField" exHexField "''-7f''"
      "zeroStruct [exHexField]"]
  have "decodeFormValue exLib (FieldByName exHexField) KInt16 exHexField ''-7f'' (zeroStruct [exHexField])
     = (None, (zeroStruct [exHexField])(''H'' := VInt (- 127)))"
    using spec
    by (simp add: signedKind_def widthOfKind_def Value_Set_def FieldByName_def exHexField_def)
  then show ?thesis
    using k spec
    by (simp add: signedKind_def widthOfKind_def Tag_Lookup_def exHexField_def)
qed

section \<open>Round trip of the scalar kinds\<close>

text \<open>
  The round-trip property of the specification: a scalar is rendered to its canonical
  text and decoded by \<^verbatim>\<open>decodeFormValue\<close> for a field with no \<^verbatim>\<open>base\<close> annotation.  First
  the booleans, the integers in the range of their kind and the strings, whose
  parsers the model carries.
\<close>

declare FormatUint.simps [simp del]

lemma digitVal_digitChar: "d < 10 \<Longrightarrow> digitVal (digitChar d) = Some d"
proof -
  assume "d < 10"
  then have "d \<in> {0, 1, 2, 3, 4, 5, 6, 7, 8, 9}"
    by auto
  then show ?thesis
    by (auto simp: digitVal_def digitChar_def byte_le_def)
qed

lemma digitChar_no_sign:
  "d < 10 \<Longrightarrow> digitChar d \<noteq> CHR ''+'' \<and> digitChar d \<noteq> CHR ''-'' \<and> digitChar d \<noteq> CHR ''_''"
proof -
  assume "d < 10"
  then have "d \<in> {0, 1, 2, 3, 4, 5, 6, 7, 8, 9}"
    by auto
  then show ?thesis
    by (auto simp: digitChar_def char_of_def bit_0)
qed

lemma ParseUint_loop_append:
  "ParseUint_loop b b0 cutoff maxVal (xs @ ys) n us =
     (case ParseUint_loop b b0 cutoff maxVal xs n us of
        ((x, None), us') \<Rightarrow> ParseUint_loop b b0 cutoff maxVal ys x us'
      | ((x, Some e), us') \<Rightarrow> ((x, Some e), us'))"
  by (induction xs arbitrary: n us) (auto simp: Let_def split: option.splits)

lemma ParseUint_loop_digit:
  assumes d: "d < 10" and n: "n * 10 + d \<le> maxVal" and m: "maxVal \<le> maxUint64"
  shows "ParseUint_loop 10 False (maxUint64 div 10 + 1) maxVal [digitChar d] n False
           = ((n * 10 + d, None), False)"
proof -
  have lt: "n * 10 + d < 2 ^ 64" "n * 10 < 2 ^ 64"
    using n m by (simp_all add: maxUint64_def)
  have "n \<le> maxUint64 div 10"
    using n m by (simp add: maxUint64_def)
  then have cut: "\<not> n \<ge> maxUint64 div 10 + 1"
    by simp
  have sign: "digitChar d \<noteq> CHR ''_''"
    using d by (simp add: digitChar_no_sign)
  show ?thesis
    using d n lt cut sign
    by (simp add: digitVal_digitChar Let_def)
qed

lemma ParseUint_loop_FormatUint:
  assumes "n \<le> maxVal" "maxVal \<le> maxUint64"
  shows "ParseUint_loop 10 False (maxUint64 div 10 + 1) maxVal (FormatUint n) 0 False
           = ((n, None), False)"
  using assms
proof (induction n rule: FormatUint.induct)
  case (1 n)
  show ?case
  proof (cases "n < 10")
    case True
    then have "FormatUint n = [digitChar n]"
      by (simp add: FormatUint.simps)
    then show ?thesis
      using ParseUint_loop_digit [of n 0 maxVal] True "1.prems" by simp
  next
    case False
    then have unfold: "FormatUint n = FormatUint (n div 10) @ [digitChar (n mod 10)]"
      by (subst FormatUint.simps) simp
    have "n div 10 \<le> maxVal"
      using "1.prems"(1) by simp
    then have prefix: "ParseUint_loop 10 False (maxUint64 div 10 + 1) maxVal (FormatUint (n div 10)) 0 False
           = ((n div 10, None), False)"
      using "1.IH" False "1.prems"(2) by simp
    have "n div 10 * 10 + n mod 10 = n"
      by simp
    then have last: "ParseUint_loop 10 False (maxUint64 div 10 + 1) maxVal [digitChar (n mod 10)] (n div 10) False
           = ((n, None), False)"
      using ParseUint_loop_digit [of "n mod 10" "n div 10" maxVal] "1.prems" by simp
    show ?thesis
      by (simp only: unfold ParseUint_loop_append prefix last prod.case option.case)
  qed
qed

lemma FormatUint_nonempty: "FormatUint n \<noteq> []"
  by (subst FormatUint.simps) simp

lemma FormatUint_head: "\<exists>d cs. d < 10 \<and> FormatUint n = digitChar d # cs"
proof (induction n rule: FormatUint.induct)
  case (1 n)
  show ?case
  proof (cases "n < 10")
    case True
    then have "FormatUint n = digitChar n # []"
      by (subst FormatUint.simps) simp
    with True show ?thesis
      by blast
  next
    case False
    with "1.IH" obtain d cs where d: "d < 10" "FormatUint (n div 10) = digitChar d # cs"
      by blast
    from False have "FormatUint n = FormatUint (n div 10) @ [digitChar (n mod 10)]"
      by (subst FormatUint.simps) simp
    with d have "FormatUint n = digitChar d # (cs @ [digitChar (n mod 10)])"
      by simp
    with d(1) show ?thesis
      by blast
  qed
qed

lemma ParseUint_FormatUint:
  assumes w: "w \<in> {0, 8, 16, 32, 64}" and n: "n < 2 ^ bitsOf w"
  shows "ParseUint (FormatUint n) 10 w = (n, None)"
proof -
  define mv :: nat where "mv = 2 ^ bitsOf w - 1"
  have mv: "n \<le> mv" "mv \<le> maxUint64"
    using w n by (auto simp: mv_def bitsOf_def IntSize_def maxUint64_def)
  have loop: "ParseUint_loop 10 False (maxUint64 div 10 + 1) mv (FormatUint n) 0 False
           = ((n, None), False)"
    using mv by (rule ParseUint_loop_FormatUint)
  have valid: "\<not> (w \<noteq> 0 \<and> (w < 0 \<or> w > 64))"
    using w by auto
  have len: "length (FormatUint n) \<noteq> 0"
    using FormatUint_nonempty [of n] by simp
  have base: "ParseUint_base (FormatUint n) 10 = Some (10, FormatUint n)"
    by (simp add: ParseUint_base_def)
  show ?thesis
    using maxVal_bitsOf [OF w] loop len
    by (simp add: ParseUint_def base valid Let_def mv_def del: One_nat_def)
qed


lemma ParseInt_FormatInt:
  assumes w: "w \<in> {0, 8, 16, 32, 64}"
    and lo: "- (2 ^ (bitsOf w - 1)) \<le> i" and hi: "i < 2 ^ (bitsOf w - 1)"
  shows "ParseInt (FormatInt i) 10 w = (i, None)"
proof -
  define C :: int where "C = 2 ^ (bitsOf w - 1)"
  define cutoff :: nat where "cutoff = 2 ^ (bitsOf w - 1)"
  have C: "int cutoff = C" "0 < C" "C \<le> 2 ^ 63" "2 * cutoff = 2 ^ bitsOf w" "cutoff \<le> 2 ^ 63"
    using w by (auto simp: C_def cutoff_def bitsOf_def IntSize_def)
  have cut: "(2 ^ nat ((if w = 0 then IntSize else w) - 1)) mod 2 ^ 64 = cutoff"
    using w by (auto simp: cutoff_def bitsOf_def IntSize_def)
  have lo': "- C \<le> i" and hi': "i < C"
    using lo hi by (simp_all add: C_def)
  show ?thesis
  proof (cases "i < 0")
    case False
    define n where "n = nat i"
    have n1: "int n = i"
      using False by (simp add: n_def)
    with hi' C(1) have n2: "n < cutoff"
      by linarith
    note n = n1 n2
    then have "n < 2 ^ bitsOf w"
      using C(4) by linarith
    then have pu: "ParseUint (FormatUint n) 10 w = (n, None)"
      using w by (intro ParseUint_FormatUint)
    obtain d cs where d: "d < 10" "FormatUint n = digitChar d # cs"
      using FormatUint_head by blast
    have fmt: "FormatInt i = FormatUint n"
      using False by (simp add: FormatInt_def n_def)
    have head: "FormatUint n \<noteq> []" "FormatUint n ! 0 \<noteq> CHR ''+''" "FormatUint n ! 0 \<noteq> CHR ''-''"
      using d digitChar_no_sign [OF d(1)] by simp_all
    have "n < 2 ^ 63"
      using n(2) C(5) by linarith
    then show ?thesis
      using head pu cut n
      by (simp add: ParseInt_def fmt Let_def int64_of_uint64_def)
  next
    case True
    define n where "n = nat (- i)"
    have n1: "int n = - i"
      using True by (simp add: n_def)
    with lo' C(1) have n2: "n \<le> cutoff"
      by linarith
    from True have n3: "0 < n"
      by (simp add: n_def)
    note n = n1 n2 n3
    then have "n < 2 ^ bitsOf w"
      using C(4) by linarith
    then have pu: "ParseUint (FormatUint n) 10 w = (n, None)"
      using w by (intro ParseUint_FormatUint)
    have fmt: "FormatInt i = CHR ''-'' # FormatUint n"
      using True by (simp add: FormatInt_def n_def)
    have negated: "neg_int64 (int64_of_uint64 n) = i"
    proof (cases "n < 2 ^ 63")
      case True
      have "(0::int) < 2 ^ 63" by simp
      with n(1,3) have "int n \<noteq> - (2 ^ 63)" by linarith
      with True n(1) show ?thesis
        by (simp add: int64_of_uint64_def neg_int64_def)
    next
      case False
      with n(2) C(5) have "n = 2 ^ 63" by linarith
      with n(1) show ?thesis
        by (simp add: int64_of_uint64_def neg_int64_def)
    qed
    show ?thesis
      using pu cut n(2) negated
      by (simp add: ParseInt_def fmt Let_def)
  qed
qed

lemma ParseBool_FormatBool: "ParseBool (FormatBool b) = Inr b"
  by (simp add: ParseBool_def FormatBool_def)

lemma base_default: "Tag_Lookup tag ''base'' = None \<Longrightarrow> base tag = (10, None)"
  by (simp add: base_def)

lemma scalar_roundtrip:
  assumes nobase: "Tag_Lookup (Tag f) ''base'' = None"
    and x: "(kind = KBool \<and> (\<exists>b. x = VBool b)) \<or>
            (kind = KString \<and> (\<exists>s. x = VString s)) \<or>
            (kind \<in> set integerKinds \<and> fitsWidth (signedKind kind) (bitsOf (widthOfKind kind)) x)"
  shows "decodeFormValue L valf kind f (canonicalText L kind x) sv = Value_Set valf x sv"
proof -
  consider (bool) b where "kind = KBool" "x = VBool b"
    | (string) s where "kind = KString" "x = VString s"
    | (signed) i where "kind \<in> set integerKinds" "signedKind kind" "x = VInt i"
        "- (2 ^ (bitsOf (widthOfKind kind) - 1)) \<le> i" "i < 2 ^ (bitsOf (widthOfKind kind) - 1)"
    | (unsigned) n where "kind \<in> set integerKinds" "\<not> signedKind kind" "x = VUint n"
        "n < 2 ^ bitsOf (widthOfKind kind)"
  proof -
    from x show ?thesis
    proof (elim disjE conjE exE)
      fix b assume "kind = KBool" "x = VBool b"
      then show ?thesis by (rule bool)
    next
      fix s assume "kind = KString" "x = VString s"
      then show ?thesis by (rule string)
    next
      assume k: "kind \<in> set integerKinds"
        and fits: "fitsWidth (signedKind kind) (bitsOf (widthOfKind kind)) x"
      show ?thesis
      proof (cases "signedKind kind")
        case True
        with fits obtain i where "x = VInt i"
          "- (2 ^ (bitsOf (widthOfKind kind) - 1)) \<le> i" "i < 2 ^ (bitsOf (widthOfKind kind) - 1)"
          by (cases x) auto
        with k True show ?thesis by (rule signed)
      next
        case False
        with fits obtain n where "x = VUint n" "n < 2 ^ bitsOf (widthOfKind kind)"
          by (cases x) auto
        with k False show ?thesis by (rule unsigned)
      qed
    qed
  qed
  then show ?thesis
  proof cases
    case bool
    then show ?thesis
      by (simp add: decodeFormValue_def decodeBool_def ParseBool_FormatBool)
  next
    case string
    then show ?thesis
      by (simp add: decodeFormValue_def)
  next
    case signed
    have "ParseInt (FormatInt i) 10 (widthOfKind kind) = (i, None)"
      using widthOfKind_integer [OF signed(1)] signed(4,5) by (rule ParseInt_FormatInt)
    then have "decodeInt valf (Tag f) (widthOfKind kind) (FormatInt i) sv = Value_Set valf (VInt i) sv"
      by (simp add: decodeInt_def base_default [OF nobase])
    with signed(1,2,3) show ?thesis
      by (auto simp: integerKinds_def signedKind_def widthOfKind_def decodeFormValue_def)
  next
    case unsigned
    have "ParseUint (FormatUint n) 10 (widthOfKind kind) = (n, None)"
      using widthOfKind_integer [OF unsigned(1)] unsigned(4) by (rule ParseUint_FormatUint)
    then have "decodeUint valf (Tag f) (widthOfKind kind) (FormatUint n) sv = Value_Set valf (VUint n) sv"
      by (simp add: decodeUint_def base_default [OF nobase])
    with unsigned(1,2,3) show ?thesis
      by (auto simp: integerKinds_def signedKind_def widthOfKind_def decodeFormValue_def)
  qed
qed

text \<open>
  The floats.  The infinities and the NaNs go through the special values of
  \<^verbatim>\<open>strconv.ParseFloat\<close>; a finite float comes back when the collaborators keep the
  promise of the library's documentation.
\<close>

lemma infinity_roundtrip:
  assumes "w = 32 \<or> w = 64"
  shows "strconv_ParseFloat L (strconv_FormatFloat L posInf w) w = Inr posInf"
    and "strconv_ParseFloat L (strconv_FormatFloat L negInf w) w = Inr negInf"
  using assms by (auto simp: float_defs)

lemma finite_roundtrip:
  assumes "\<not> isNaN y" "y \<noteq> posInf" "y \<noteq> negInf" "libraryRoundTrip L y w"
  shows "strconv_ParseFloat L (strconv_FormatFloat L y w) w = Inr y"
  using assms by (simp add: strconv_ParseFloat_def strconv_FormatFloat_def libraryRoundTrip_def)

lemma NaN_roundtrip:
  assumes "isNaN y"
  shows "\<exists>z. strconv_ParseFloat L (strconv_FormatFloat L y w) w = Inr z \<and> isNaN z \<and> \<not> float_eq y z"
  using assms
  by (simp add: strconv_ParseFloat_def strconv_FormatFloat_def special_def equalIgnoreCase_def
        lowerASCII_def float32_of_special_def float_eq_def byte_le_def char_of_def bit_0)
     (simp add: isNaN_def quietNaN_def)

lemma float_roundtrip:
  assumes fk: "kind \<in> set floatKinds" and nan: "\<not> isNaN y"
    and lib: "y = posInf \<or> y = negInf \<or> libraryRoundTrip L y (widthOfFloat kind)"
  shows "decodeFormValue L valf kind f (canonicalText L kind (VFloat y)) sv
           = Value_Set valf (VFloat y) sv"
proof -
  have w: "widthOfFloat kind = 32 \<or> widthOfFloat kind = 64"
    by (simp add: widthOfFloat_def)
  have "strconv_ParseFloat L (strconv_FormatFloat L y (widthOfFloat kind)) (widthOfFloat kind) = Inr y"
    using lib infinity_roundtrip [OF w, of L] finite_roundtrip [OF nan, of L "widthOfFloat kind"]
    by blast
  moreover have "decodeFormValue L valf kind f (canonicalText L kind (VFloat y)) sv
      = decodeFloat L valf (widthOfFloat kind) (strconv_FormatFloat L y (widthOfFloat kind)) sv"
    using fk by (auto simp: floatKinds_def decodeFormValue_def widthOfFloat_def)
  ultimately show ?thesis
    by (simp add: decodeFloat_def)
qed

text \<open>
  Claim C6 says that for every value of a scalar kind the round trip yields a value
  equal to the original.  A NaN is a value of the kind \<^verbatim>\<open>float64\<close>: its canonical text
  is \<^verbatim>\<open>NaN\<close>, the decoder accepts it and assigns a NaN, and a NaN is not equal to a
  NaN.
\<close>

theorem NaN_not_equal_after_roundtrip:
  "isNaN quietNaN \<and>
   canonicalText exLib KFloat64 (VFloat quietNaN) = ''NaN'' \<and>
   decodeFormValue exLib (FieldByName exFloatField) KFloat64 exFloatField ''NaN''
       (zeroStruct [exFloatField])
     = (None, (zeroStruct [exFloatField])(''F'' := VFloat quietNaN)) \<and>
   \<not> go_equal (VFloat quietNaN) (VFloat quietNaN)"
  by (simp add: field_defs float_defs example_defs)

text \<open>
  Claim C6, as amended.  For every supported scalar kind and every value \<open>x\<close> of that
  kind other than a NaN (a boolean, an integer in the range of the kind, a string, an
  infinity, or a finite float for which the library keeps the documented promise that
  \<^verbatim>\<open>ParseFloat\<close> returns it exactly from the text \<^verbatim>\<open>FormatFloat\<close> gives), decoding the
  canonical text of \<open>x\<close> for a field with no \<^verbatim>\<open>base\<close> annotation assigns \<open>x\<close>, which is
  equal to itself: the decoder succeeds and the field holds \<open>x\<close> when the field can be
  set, and reflect panics, as for every assignment, when it cannot (a field that is
  not exported).
\<close>

theorem scalar_roundtrip_except_NaN:
  assumes nobase: "Tag_Lookup (Tag f) ''base'' = None"
    and x: "(kind = KBool \<and> (\<exists>b. x = VBool b)) \<or>
            (kind = KString \<and> (\<exists>s. x = VString s)) \<or>
            (kind \<in> set integerKinds \<and> fitsWidth (signedKind kind) (bitsOf (widthOfKind kind)) x) \<or>
            (kind \<in> set floatKinds \<and>
               (\<exists>y. x = VFloat y \<and> \<not> isNaN y \<and>
                    (y = posInf \<or> y = negInf \<or> libraryRoundTrip L y (widthOfFloat kind))))"
  shows "decodeFormValue L valf kind f (canonicalText L kind x) sv = Value_Set valf x sv \<and>
         go_equal x x \<and>
         (vsettable valf \<longrightarrow>
            decodeFormValue L valf kind f (canonicalText L kind x) sv
              = (None, sv(vname valf := (if vindirect valf then VPtr x else x))))"
proof -
  have assigned: "decodeFormValue L valf kind f (canonicalText L kind x) sv = Value_Set valf x sv"
  proof (cases "kind \<in> set floatKinds")
    case True
    then have "kind \<noteq> KBool" "kind \<noteq> KString" "kind \<notin> set integerKinds"
      by (auto simp: floatKinds_def integerKinds_def)
    with x obtain y where y: "x = VFloat y" "\<not> isNaN y"
      "y = posInf \<or> y = negInf \<or> libraryRoundTrip L y (widthOfFloat kind)"
      by auto
    show ?thesis
      unfolding y(1) using True y(2,3) by (rule float_roundtrip)
  next
    case False
    with x have "(kind = KBool \<and> (\<exists>b. x = VBool b)) \<or>
            (kind = KString \<and> (\<exists>s. x = VString s)) \<or>
            (kind \<in> set integerKinds \<and> fitsWidth (signedKind kind) (bitsOf (widthOfKind kind)) x)"
      by blast
    with nobase show ?thesis
      by (rule scalar_roundtrip)
  qed
  have equal: "go_equal x x"
  proof (cases x)
    case (VFloat y)
    with x have "\<not> isNaN y"
      by (auto simp: integerKinds_def split: if_splits)
    with VFloat show ?thesis
      by (simp add: float_eq_def)
  qed simp_all
  show ?thesis
    using assigned equal by (simp add: Value_Set_def)
qed

text \<open>The float 1.5 into \<^verbatim>\<open>F float64 `form:"f"`\<close>, and the integer \<open>-128\<close> into the field
  \<open>C\<close> of the example struct.\<close>

theorem scalar_roundtrip_except_NaN_witness:
  "Tag_Lookup (Tag exFloatField) ''base'' = None \<and> KFloat64 \<in> set floatKinds \<and>
   \<not> isNaN onePointFive \<and> libraryRoundTrip exLib onePointFive 64 \<and>
   vsettable (FieldByName exFloatField) \<and>
   canonicalText exLib KFloat64 (VFloat onePointFive) = ''1.5'' \<and>
   decodeFormValue exLib (FieldByName exFloatField) KFloat64 exFloatField ''1.5''
       (zeroStruct [exFloatField])
     = (None, (zeroStruct [exFloatField])(''F'' := VFloat onePointFive)) \<and>
   go_equal (VFloat onePointFive) (VFloat onePointFive) \<and>
   KInt8 \<in> set integerKinds \<and> fitsWidth True 8 (VInt (- 128)) \<and>
   canonicalText exLib KInt8 (VInt (- 128)) = ''-128'' \<and>
   decodeFormValue exLib (FieldByName (exFields ! 2)) KInt8 (exFields ! 2) ''-128'' exZero
     = (None, exZero(''C'' := VInt (- 128)))"
proof -
  have nobase: "Tag_Lookup (Tag exFloatField) ''base'' = None"
    by (simp add: Tag_Lookup_def example_defs)
  have fk: "KFloat64 \<in> set floatKinds"
    by (simp add: floatKinds_def)
  have finite: "\<not> isNaN onePointFive"
    by (simp add: isNaN_def onePointFive_def)
  have lib: "libraryRoundTrip exLib onePointFive 64"
    by (simp add: libraryRoundTrip_def float_defs exLib_def)
  have settable: "vsettable (FieldByName exFloatField)"
    by (simp add: FieldByName_def exFloatField_def formField_def)
  have rendered: "canonicalText exLib KFloat64 (VFloat onePointFive) = ''1.5''"
    by (simp add: float_defs example_defs)
  have hyp: "(KFloat64 = KBool \<and> (\<exists>b. VFloat onePointFive = VBool b)) \<or>
            (KFloat64 = KString \<and> (\<exists>s. VFloat onePointFive = VString s)) \<or>
            (KFloat64 \<in> set integerKinds \<and>
               fitsWidth (signedKind KFloat64) (bitsOf (widthOfKind KFloat64)) (VFloat onePointFive)) \<or>
            (KFloat64 \<in> set floatKinds \<and>
               (\<exists>y. VFloat onePointFive = VFloat y \<and> \<not> isNaN y \<and>
                    (y = posInf \<or> y = negInf \<or> libraryRoundTrip exLib y (widthOfFloat KFloat64))))"
    using fk finite lib by (simp add: widthOfFloat_def)
  have float: "decodeFormValue exLib (FieldByName exFloatField) KFloat64 exFloatField ''1.5''
       (zeroStruct [exFloatField])
     = (None, (zeroStruct [exFloatField])(''F'' := VFloat onePointFive)) \<and>
     go_equal (VFloat onePointFive) (VFloat onePointFive)"
    using scalar_roundtrip_except_NaN [OF nobase hyp, where valf = "FieldByName exFloatField"
        and sv = "zeroStruct [exFloatField]"] rendered settable
    by (simp add: Value_Set_def FieldByName_def exFloatField_def formField_def)
  have nobase8: "Tag_Lookup (Tag (exFields ! 2)) ''base'' = None"
    by (simp add: Tag_Lookup_def example_defs)
  have ik: "KInt8 \<in> set integerKinds"
    by (simp add: integerKinds_def)
  have fits: "fitsWidth True 8 (VInt (- 128))"
    by simp
  have hyp8: "(KInt8 = KBool \<and> (\<exists>b. VInt (- 128) = VBool b)) \<or>
            (KInt8 = KString \<and> (\<exists>s. VInt (- 128) = VString s)) \<or>
            (KInt8 \<in> set integerKinds \<and>
               fitsWidth (signedKind KInt8) (bitsOf (widthOfKind KInt8)) (VInt (- 128))) \<or>
            (KInt8 \<in> set floatKinds \<and>
               (\<exists>y. VInt (- 128) = VFloat y \<and> \<not> isNaN y \<and>
                    (y = posInf \<or> y = negInf \<or> libraryRoundTrip exLib y (widthOfFloat KInt8))))"
    using ik by (simp add: signedKind_def widthOfKind_def bitsOf_def)
  have rendered8: "canonicalText exLib KInt8 (VInt (- 128)) = ''-128''"
    by (simp add: FormatInt_def FormatUint.simps digitChar_def char_of_def bit_0)
  have int8: "decodeFormValue exLib (FieldByName (exFields ! 2)) KInt8 (exFields ! 2) ''-128'' exZero
     = (None, exZero(''C'' := VInt (- 128)))"
    using scalar_roundtrip_except_NaN [OF nobase8 hyp8, where valf = "FieldByName (exFields ! 2)"
        and sv = exZero] rendered8
    by (simp add: Value_Set_def FieldByName_def exFields_def formField_def)
  show ?thesis
    using nobase fk finite lib settable rendered float ik fits rendered8 int8 by simp
qed

end
